theory Spec2Isabelle
  imports Complex_Main
begin

section \<open>Python values\<close>

text \<open>
  Python floats are modelled as ideal reals (\<^typ>\<open>real\<close>): rounding of the
  arithmetic is abstracted, formatting and comparisons are kept. Exceptions are values
  of \<open>py_error\<close>, carrying the message that \<open>str(e)\<close> prints.
\<close>

datatype py_error =
    ValueError string
  | TypeError string
  | ZeroDivisionError string
  | RuntimeError string

fun str_of_error :: "py_error \<Rightarrow> string" where
  "str_of_error (ValueError m) = m"
| "str_of_error (TypeError m) = m"
| "str_of_error (ZeroDivisionError m) = m"
| "str_of_error (RuntimeError m) = m"

subsection \<open>Fixed-point formatting: \<open>format(x, '.kf')\<close>\<close>

text \<open>
  \<open>f"{x:.5f}"\<close> prints the decimal with \<open>k\<close> fractional digits nearest to
  \<open>x\<close> (a tie goes to the even last digit), with a leading \<open>-\<close> for a negative
  \<open>x\<close>, also when the digits are all zero.
\<close>

definition round_half_even :: "real \<Rightarrow> int" where
  "round_half_even y =
     (let f = \<lfloor>y\<rfloor>; d = y - of_int f
      in if d < 1/2 then f else if 1/2 < d then f + 1 else if even f then f else f + 1)"

definition digit_char :: "nat \<Rightarrow> char" where
  "digit_char d = ''0123456789'' ! d"

fun pad_digits :: "nat \<Rightarrow> nat \<Rightarrow> string" where
  "pad_digits 0 m = []"
| "pad_digits (Suc k) m = pad_digits k (m div 10) @ [digit_char (m mod 10)]"

function show_nat :: "nat \<Rightarrow> string" where
  "show_nat n = (if n < 10 then [digit_char n] else show_nat (n div 10) @ [digit_char (n mod 10)])"
  by pat_completeness auto
termination
  by (relation "measure id") auto

declare show_nat.simps [simp del]

definition scaled_digits :: "nat \<Rightarrow> real \<Rightarrow> nat" where
  "scaled_digits k x = nat (round_half_even (\<bar>x\<bar> * 10 ^ k))"

definition format_f :: "nat \<Rightarrow> real \<Rightarrow> string" where
  "format_f k x =
     (let n = scaled_digits k x
      in (if x < 0 then ''-'' else [])
         @ show_nat (n div 10 ^ k)
         @ (if k = 0 then [] else ''.'' @ pad_digits k (n mod 10 ^ k)))"

text \<open>The number a formatted field denotes when it is read back.\<close>

definition fixed_value :: "nat \<Rightarrow> real \<Rightarrow> real" where
  "fixed_value k x = (if x < 0 then - 1 else 1) * real (scaled_digits k x) / 10 ^ k"

section \<open>wav_to_exp_analytical.py: PiezoAutoFitter\<close>

text \<open>
  \<open>self.params\<close> is a dictionary with nine fixed keys; it is a record here, one field
  per key.
\<close>

record params =
  amp1 :: real
  decay1 :: real
  freq1 :: real
  phase1 :: real
  amp2 :: real
  decay2 :: real
  freq2 :: real
  phase2 :: real
  scale :: real

record fitter =
  sample_rate :: int
  data :: "real list option"
  time :: "real list option"
  filepath :: string
  params :: params

definition init_params :: params where
  "init_params =
     \<lparr>amp1 = 1.0, decay1 = 10.0, freq1 = 100.0, phase1 = 0.0,
      amp2 = 0.5, decay2 = 50.0, freq2 = 400.0, phase2 = 0.0,
      scale = 1.0\<rparr>"

definition PiezoAutoFitter_init :: fitter where
  "PiezoAutoFitter_init =
     \<lparr>sample_rate = 0, data = None, time = None, filepath = [], params = init_params\<rparr>"

text \<open>\<open>dual_damped_sine\<close>, at one time sample (numpy applies it to each element).\<close>

definition dual_damped_sine ::
  "real \<Rightarrow> real \<Rightarrow> real \<Rightarrow> real \<Rightarrow> real \<Rightarrow> real \<Rightarrow> real \<Rightarrow> real \<Rightarrow> real \<Rightarrow> real" where
  "dual_damped_sine t a1 d1 f1 p1 a2 d2 f2 p2 =
     (let c1 = a1 * exp (- d1 * t) * sin (2 * pi * f1 * t + p1);
          c2 = a2 * exp (- d2 * t) * sin (2 * pi * f2 * t + p2)
      in c1 + c2)"

subsection \<open>update_plot\<close>

record plot_lines =
  line_raw :: "real list \<times> real list"
  line_fit :: "real list \<times> real list"
  line_c1 :: "real list \<times> real list"
  line_c2 :: "real list \<times> real list"

text \<open>The red line of the preview at one time sample: \<open>(c1 + c2) * p['scale']\<close>.\<close>

definition total_signal :: "params \<Rightarrow> real \<Rightarrow> real" where
  "total_signal p t =
     (let c1 = amp1 p * exp (- decay1 p * t) * sin (2 * pi * freq1 p * t + phase1 p);
          c2 = amp2 p * exp (- decay2 p * t) * sin (2 * pi * freq2 p * t + phase2 p)
      in (c1 + c2) * scale p)"

text \<open>
  \<open>update_plot\<close> returns the four lines it sets, \<open>None\<close> when it returns early
  because no window is loaded, and the exception of \<open>-p['decay1'] * t\<close> when the
  window is there and \<open>self.time\<close> is still \<open>None\<close>.
\<close>

definition update_plot :: "fitter \<Rightarrow> py_error + plot_lines option" where
  "update_plot self =
     (case data self of
        None \<Rightarrow> Inr None
      | Some ys \<Rightarrow>
          (let p = params self
           in case time self of
                None \<Rightarrow> Inl (TypeError ''unsupported operand type(s) for *: float and NoneType'')
              | Some t \<Rightarrow>
                  (let c1 = (\<lambda>t. amp1 p * exp (- decay1 p * t) * sin (2 * pi * freq1 p * t + phase1 p));
                       c2 = (\<lambda>t. amp2 p * exp (- decay2 p * t) * sin (2 * pi * freq2 p * t + phase2 p));
                       total_signal = (\<lambda>t. (c1 t + c2 t) * scale p)
                   in Inr (Some \<lparr>line_raw = (t, ys),
                                  line_fit = (t, map total_signal t),
                                  line_c1 = (t, map (\<lambda>t. c1 t * scale p) t),
                                  line_c2 = (t, map (\<lambda>t. c2 t * scale p) t)\<rparr>))))"

subsection \<open>export_spice\<close>

text \<open>One component string of \<open>export_spice\<close>, from the amplitude already scaled.\<close>

definition comp_string :: "real \<Rightarrow> real \<Rightarrow> real \<Rightarrow> real \<Rightarrow> string" where
  "comp_string a_final d f p =
     format_f 5 a_final @ '' * exp(-'' @ format_f 5 d @ '' * time) * sin(6.283185 * ''
       @ format_f 5 f @ '' * time + '' @ format_f 5 p @ '')''"

definition comp1 :: "params \<Rightarrow> string" where
  "comp1 p = (let a1_final = amp1 p * scale p in comp_string a1_final (decay1 p) (freq1 p) (phase1 p))"

definition comp2 :: "params \<Rightarrow> string" where
  "comp2 p = (let a2_final = amp2 p * scale p in comp_string a2_final (decay2 p) (freq2 p) (phase2 p))"

definition model_name :: string where
  "model_name = ''CUSTOM_PIEZO''"

definition spice_content :: "params \<Rightarrow> string" where
  "spice_content p =
     ''\<newline>.SUBCKT '' @ model_name @ '' out gnd\<newline>''
     @ ''\<newline>''
     @ ''* Generated Automated Model\<newline>''
     @ ''* Dual-Component Damped Sine Approximation\<newline>''
     @ ''* Component 1: F='' @ format_f 1 (freq1 p) @ ''Hz, Decay='' @ format_f 1 (decay1 p) @ ''\<newline>''
     @ ''* Component 2: F='' @ format_f 1 (freq2 p) @ ''Hz, Decay='' @ format_f 1 (decay2 p) @ ''\<newline>''
     @ ''\<newline>''
     @ ''E1 out gnd VALUE={\<newline>''
     @ ''+ '' @ comp1 p @ '' \<newline>''
     @ ''+ + \<newline>''
     @ ''+ '' @ comp2 p @ ''\<newline>''
     @ ''+ }\<newline>''
     @ ''\<newline>''
     @ ''.ENDS '' @ model_name @ ''\<newline>''"

text \<open>
  \<open>export_spice\<close> returns the text it writes to \<open>piezo_auto_model.sub\<close>, and
  \<open>None\<close> when it returns early because no window is loaded.
\<close>

definition export_spice :: "fitter \<Rightarrow> string option" where
  "export_spice self =
     (case data self of
        None \<Rightarrow> None
      | Some ys \<Rightarrow> Some (spice_content (params self)))"

section \<open>Library functions called by the fitter\<close>

text \<open>
  numpy and scipy are not part of the repository. The functions the fitter calls are
  written out here as their documentation and reference implementation define them, over
  ideal reals; \<open>curve_fit\<close>, the optimizer, is a parameter of \<open>perform_auto_fit\<close>.
\<close>

subsection \<open>numpy.fft.fft, numpy.fft.fftfreq, numpy.max, numpy.argsort\<close>

text \<open>The discrete Fourier transform \<open>A[k] = \<Sum>m. a[m] * exp(-2\<pi>i * m * k / n)\<close>.\<close>

definition fft :: "real list \<Rightarrow> py_error + complex list" where
  "fft a =
     (let n = length a
      in if n < 1 then Inl (ValueError ''Invalid number of FFT data points (0) specified.'')
         else Inr (map (\<lambda>k. \<Sum>m<n. complex_of_real (a ! m) * cis (- 2 * pi * real m * real k / real n))
                       [0..<n]))"

text \<open>\<open>fftfreq(n, d)\<close>: \<open>[0, 1, ..., (n-1)//2, -(n//2), ..., -1] / (d * n)\<close>.\<close>

definition fftfreq :: "nat \<Rightarrow> real \<Rightarrow> real list" where
  "fftfreq n d =
     (let val = 1 / (real n * d);
          results = [0..(int n - 1) div 2] @ [- (int n div 2)..- 1]
      in map (\<lambda>i. real_of_int i * val) results)"

definition np_max :: "real list \<Rightarrow> py_error + real" where
  "np_max xs =
     (if xs = [] then Inl (ValueError ''zero-size array to reduction operation maximum which has no identity'')
      else Inr (Max (set xs)))"

text \<open>
  \<open>argsort\<close>: the positions in ascending order of their values. numpy does not fix the
  order of equal values; the stable order is taken here, and no property below rests on it.
\<close>

definition argsort :: "real list \<Rightarrow> nat list" where
  "argsort xs = sort_key (\<lambda>i. xs ! i) [0..<length xs]"

subsection \<open>scipy.signal.find_peaks\<close>

text \<open>
  \<open>_local_maxima_1d\<close>: a sample or the middle of a flat run that is strictly higher than
  both neighbours; the first and the last sample are never peaks.
\<close>

function plateau_end :: "real list \<Rightarrow> nat \<Rightarrow> nat \<Rightarrow> nat" where
  "plateau_end x i i_ahead =
     (if i_ahead < length x - 1 \<and> x ! i_ahead = x ! i
      then plateau_end x i (i_ahead + 1) else i_ahead)"
  by pat_completeness auto
termination
  by (relation "measure (\<lambda>(x, i, i_ahead). length x - i_ahead)") auto

declare plateau_end.simps [simp del]

lemma plateau_end_ge: "i_ahead \<le> plateau_end x i i_ahead"
proof (induction x i i_ahead rule: plateau_end.induct)
  case (1 x i i_ahead)
  show ?case
  proof (cases "i_ahead < length x - 1 \<and> x ! i_ahead = x ! i")
    case True
    with 1 have "i_ahead + 1 \<le> plateau_end x i (i_ahead + 1)" by simp
    with True show ?thesis by (subst plateau_end.simps) simp
  next
    case False
    then show ?thesis by (subst plateau_end.simps) auto
  qed
qed

function local_maxima_loop :: "real list \<Rightarrow> nat \<Rightarrow> nat list \<Rightarrow> nat list" where
  "local_maxima_loop x i midpoints =
     (if i < length x - 1 then
        (if x ! (i - 1) < x ! i then
           (if x ! (plateau_end x i (i + 1)) < x ! i
            then local_maxima_loop x (plateau_end x i (i + 1) + 1)
                   (midpoints @ [(i + (plateau_end x i (i + 1) - 1)) div 2])
            else local_maxima_loop x (i + 1) midpoints)
         else local_maxima_loop x (i + 1) midpoints)
      else midpoints)"
  by pat_completeness auto
termination
proof (relation "measure (\<lambda>(x, i, midpoints). length x - i)", goal_cases)
  case 1
  show ?case by simp
next
  case (2 x i midpoints)
  have "i + 1 \<le> plateau_end x i (i + 1)" by (rule plateau_end_ge)
  with 2 show ?case by simp
next
  case (3 x i midpoints)
  then show ?case by simp
next
  case (4 x i midpoints)
  then show ?case by simp
qed

declare local_maxima_loop.simps [simp del]

definition local_maxima_1d :: "real list \<Rightarrow> nat list" where
  "local_maxima_1d x = local_maxima_loop x 1 []"

text \<open>\<open>_select_by_property\<close> with a lower border only: \<open>hmin <= x[peaks]\<close>.\<close>

definition select_by_height :: "real list \<Rightarrow> real \<Rightarrow> nat list \<Rightarrow> nat list" where
  "select_by_height x hmin peaks = filter (\<lambda>p. hmin \<le> x ! p) peaks"

text \<open>
  \<open>_select_by_peak_distance\<close>: peaks are visited from the highest priority down; a peak
  still kept removes every peak closer than \<open>distance\<close> on its left and on its right.
\<close>

fun clear_left :: "nat list \<Rightarrow> int \<Rightarrow> nat \<Rightarrow> nat \<Rightarrow> bool list \<Rightarrow> bool list" where
  "clear_left peaks distance j 0 keep = keep"
| "clear_left peaks distance j (Suc k) keep =
     (if int (peaks ! j) - int (peaks ! k) < distance
      then clear_left peaks distance j k (keep[k := False]) else keep)"

function clear_right :: "nat list \<Rightarrow> int \<Rightarrow> nat \<Rightarrow> nat \<Rightarrow> bool list \<Rightarrow> bool list" where
  "clear_right peaks distance j k keep =
     (if k < length peaks \<and> int (peaks ! k) - int (peaks ! j) < distance
      then clear_right peaks distance j (k + 1) (keep[k := False]) else keep)"
  by pat_completeness auto
termination
  by (relation "measure (\<lambda>(peaks, distance, j, k, keep). length peaks - k)") auto

declare clear_right.simps [simp del]

fun select_loop :: "nat list \<Rightarrow> int \<Rightarrow> nat list \<Rightarrow> bool list \<Rightarrow> bool list" where
  "select_loop peaks distance [] keep = keep"
| "select_loop peaks distance (j # js) keep =
     (if \<not> keep ! j then select_loop peaks distance js keep
      else select_loop peaks distance js
             (clear_right peaks distance j (j + 1) (clear_left peaks distance j j keep)))"

definition select_by_peak_distance :: "nat list \<Rightarrow> real list \<Rightarrow> int \<Rightarrow> bool list" where
  "select_by_peak_distance peaks priority distance =
     select_loop peaks distance (rev (argsort priority)) (replicate (length peaks) True)"

definition find_peaks :: "real list \<Rightarrow> real \<Rightarrow> int \<Rightarrow> nat list" where
  "find_peaks x height distance =
     (let peaks = local_maxima_1d x;
          peaks = select_by_height x height peaks;
          keep = select_by_peak_distance peaks (map (\<lambda>p. x ! p) peaks) distance
      in map fst (filter snd (zip peaks keep)))"

section \<open>perform_auto_fit\<close>

text \<open>
  Bounds of the optimizer: \<open>-np.inf\<close> and \<open>np.inf\<close> are values of their own, so that
  the two bound lists are the lists of the source.
\<close>

datatype bound = NegInf | Finite real | PosInf

fun bound_le_real :: "bound \<Rightarrow> real \<Rightarrow> bool" where
  "bound_le_real NegInf x = True"
| "bound_le_real (Finite b) x = (b \<le> x)"
| "bound_le_real PosInf x = False"

fun real_le_bound :: "real \<Rightarrow> bound \<Rightarrow> bool" where
  "real_le_bound x NegInf = False"
| "real_le_bound x (Finite b) = (x \<le> b)"
| "real_le_bound x PosInf = True"

text \<open>
  \<open>scipy.optimize.curve_fit(f, xdata, ydata, p0=..., bounds=..., maxfev=...)\<close>: the fitted
  parameters, or the exception it raises.
\<close>

type_synonym curve_fit_fn =
  "(real \<Rightarrow> real list \<Rightarrow> real) \<Rightarrow> real list option \<Rightarrow> real list \<Rightarrow> real list
     \<Rightarrow> bound list \<times> bound list \<Rightarrow> nat \<Rightarrow> py_error + real list"

text \<open>
  Lines 84 to 94: the magnitude spectrum, its frequency axis and the peak indices sorted
  by height, highest first.
\<close>

definition analyze_spectrum :: "int \<Rightarrow> real list \<Rightarrow> py_error + (real list \<times> real list \<times> nat list)" where
  "analyze_spectrum sr ys =
     (let N = length ys
      in case fft ys of
           Inl e \<Rightarrow> Inl e
         | Inr yf \<Rightarrow>
             if sr = 0 then Inl (ZeroDivisionError ''division by zero'')
             else
               (let xf = fftfreq N (1 / real_of_int sr);
                    mag = map cmod (take (N div 2) yf);
                    freqs = take (N div 2) xf
                in case np_max mag of
                     Inl e \<Rightarrow> Inl e
                   | Inr m \<Rightarrow>
                       (let peaks = find_peaks mag (m * 0.1) 50;
                            sorted_peak_indices =
                              map (\<lambda>i. peaks ! i) (rev (argsort (map (\<lambda>p. mag ! p) peaks)))
                        in Inr (mag, freqs, sorted_peak_indices))))"

text \<open>
  Lines 96 to 115: the initial guess \<open>p0\<close>. The window is not empty here: the
  spectrum of an empty window has already raised.
\<close>

definition initial_guess :: "real list \<Rightarrow> nat list \<Rightarrow> real list \<Rightarrow> real list" where
  "initial_guess freqs sorted_peak_indices ys =
     (let guess_f1 = (if length sorted_peak_indices > 0 then freqs ! (sorted_peak_indices ! 0) else 100.0);
          guess_f2 = guess_f1 * 2;
          guess_f2 = (if length sorted_peak_indices > 1 then freqs ! (sorted_peak_indices ! 1) else guess_f2);
          max_amp = Max (set (map abs ys));
          guess_a1 = max_amp * 0.7;
          guess_a2 = max_amp * 0.3;
          guess_d1 = 20.0;
          guess_d2 = 50.0
      in [guess_a1, guess_d1, guess_f1, 0.0,
          guess_a2, guess_d2, guess_f2, 0.0])"

definition lower_bounds :: "bound list" where
  "lower_bounds = [NegInf, Finite 0, Finite 1, Finite (- pi), NegInf, Finite 0, Finite 1, Finite (- pi)]"

definition upper_bounds :: "bound list" where
  "upper_bounds = [PosInf, Finite 1000, Finite 20000, Finite pi, PosInf, Finite 1000, Finite 20000, Finite pi]"

text \<open>\<open>a, b, c, d = xs\<close>: the four values, or \<open>None\<close> where Python raises ValueError.\<close>

fun unpack4 :: "real list \<Rightarrow> (real \<times> real \<times> real \<times> real) option" where
  "unpack4 [a, b, c, d] = Some (a, b, c, d)"
| "unpack4 xs = None"

text \<open>The model function as \<open>curve_fit\<close> calls it: \<open>f(t, *params)\<close>.\<close>

definition model_fn :: "real \<Rightarrow> real list \<Rightarrow> real" where
  "model_fn t ps = dual_damped_sine t (ps ! 0) (ps ! 1) (ps ! 2) (ps ! 3) (ps ! 4) (ps ! 5) (ps ! 6) (ps ! 7)"

text \<open>
  The \<open>except Exception\<close> branch: the message is printed and the two frequencies are set
  to the guesses, in the parameters as they are when the exception is caught.
\<close>

definition fit_failed :: "fitter \<Rightarrow> params \<Rightarrow> real list \<Rightarrow> py_error \<Rightarrow> fitter \<times> string list" where
  "fit_failed self p p0 e =
     (self\<lparr>params := p\<lparr>freq1 := p0 ! 2, freq2 := p0 ! 6\<rparr>\<rparr>,
      [''Analyzing signal spectrum...'', ''Running Least Squares Optimization...'',
       ''Fit failed, using guesses: '' @ str_of_error e])"

text \<open>
  \<open>perform_auto_fit\<close> returns the fitter with its new parameters and the lines it
  printed, or the exception that leaves it.
\<close>

definition perform_auto_fit :: "curve_fit_fn \<Rightarrow> fitter \<Rightarrow> py_error + (fitter \<times> string list)" where
  "perform_auto_fit curve_fit self =
     (case data self of
        None \<Rightarrow> Inl (TypeError ''object of type NoneType has no len()'')
      | Some ys \<Rightarrow>
          (case analyze_spectrum (sample_rate self) ys of
             Inl e \<Rightarrow> Inl e
           | Inr (mag, freqs, sorted_peak_indices) \<Rightarrow>
               (let p0 = initial_guess freqs sorted_peak_indices ys
                in case curve_fit model_fn (time self) ys p0 (lower_bounds, upper_bounds) 20000 of
                     Inl e \<Rightarrow> Inr (fit_failed self (params self) p0 e)
                   | Inr popt \<Rightarrow>
                       (case unpack4 (take 4 popt) of
                          None \<Rightarrow> Inr (fit_failed self (params self) p0 (ValueError ''not enough values to unpack''))
                        | Some (a1, d1, f1, p1) \<Rightarrow>
                            (let p = (params self)\<lparr>amp1 := a1, decay1 := d1, freq1 := f1, phase1 := p1\<rparr>
                             in case unpack4 (take 4 (drop 4 popt)) of
                                  None \<Rightarrow> Inr (fit_failed self p p0 (ValueError ''not enough values to unpack''))
                                | Some (a2, d2, f2, p2) \<Rightarrow>
                                    Inr (self\<lparr>params := p\<lparr>amp2 := a2, decay2 := d2, freq2 := f2, phase2 := p2\<rparr>\<rparr>,
                                         [''Analyzing signal spectrum...'',
                                          ''Running Least Squares Optimization...'',
                                          ''Fit successful.''])))))) "

text \<open>
  The repository keeps no \<open>converged\<close> flag: which branch ran shows only in the line
  printed last.
\<close>

definition converged :: "string list \<Rightarrow> bool" where
  "converged out = (out \<noteq> [] \<and> last out = ''Fit successful.'')"

section \<open>piezo_gui.py: the delayed-event model\<close>

text \<open>The dictionary of \<open>SignalControls.get_values\<close>, and a control with its check box.\<close>

record signal_values =
  amplitude :: real
  delay :: real
  frequency :: real
  damping :: real

record control =
  is_visible :: bool
  get_values :: signal_values

text \<open>
  \<open>calculate_signal\<close> at one time sample: the response is zero where the mask
  \<open>t >= delay\<close> is false.
\<close>

definition calculate_signal_at :: "signal_values \<Rightarrow> real \<Rightarrow> real" where
  "calculate_signal_at v t =
     (let amplitude = amplitude v;
          delay = delay v / 1000;
          freq = frequency v;
          zeta = damping v;
          omega = 2 * pi * freq;
          alpha = zeta * omega;
          phase_factor = sqrt (1 - zeta\<^sup>2)
      in if t \<ge> delay
         then amplitude * exp (- alpha * (t - delay)) * sin (omega * phase_factor * (t - delay))
         else 0)"

definition calculate_signal :: "signal_values \<Rightarrow> real list \<Rightarrow> real list" where
  "calculate_signal v ts = map (calculate_signal_at v) ts"

text \<open>The expression \<open>generate_spice_model\<close> writes for one event, after \<open>"\n+ "\<close>.\<close>

definition event_expression :: "signal_values \<Rightarrow> string" where
  "event_expression v =
     (let amp = amplitude v;
          delay = delay v / 1000;
          freq = frequency v;
          zeta = damping v;
          omega = 2 * pi * freq;
          alpha = zeta * omega;
          phase_factor = sqrt (1 - zeta\<^sup>2)
      in format_f 1 amp @ '' * exp(-'' @ format_f 8 alpha @ '' * (time - '' @ format_f 6 delay
         @ '')) * sin('' @ format_f 8 omega @ '' * '' @ format_f 8 phase_factor
         @ '' * (time - '' @ format_f 6 delay @ '')) * ((time - '' @ format_f 6 delay @ '') > 0)'')"

fun generate_loop :: "control list \<Rightarrow> bool \<Rightarrow> string \<Rightarrow> string" where
  "generate_loop [] first model = model"
| "generate_loop (c # cs) first model =
     (if \<not> is_visible c then generate_loop cs first model
      else generate_loop cs False
             ((if \<not> first then model @ ''+'' else model)
              @ ''\<newline>+ '' @ event_expression (get_values c)))"

text \<open>\<open>now\<close> is the time stamp \<open>datetime.now().strftime(...)\<close> printed in the header.\<close>

definition generate_spice_model :: "string \<Rightarrow> control list \<Rightarrow> string" where
  "generate_spice_model now signal_controls =
     generate_loop signal_controls True
       (''* Multiple Piezoelectric Sensor Response Library\<newline>''
        @ ''* Generated: '' @ now @ ''\<newline>''
        @ ''* Dynamic multi-signal configuration\<newline>''
        @ ''\<newline>''
        @ ''.SUBCKT MULTI_PIEZO out gnd\<newline>''
        @ ''\<newline>''
        @ ''* Combined response of multiple events\<newline>''
        @ ''E1 out gnd VALUE={'')
     @ ''\<newline>+ }\<newline>\<newline>.ENDS MULTI_PIEZO''"

section \<open>The specification's waveform model\<close>

text \<open>
  Section 4.4 of the specification, in its own words and for any number of components:
  the value at \<open>t\<close> is \<open>global_scale\<close> times the sum over the components
  \<open>(amplitude, decay_rate, frequency, phase)\<close> of
  \<open>amplitude * exp(-decay_rate * t) * sin(2\<pi> * frequency * t + phase)\<close>.
\<close>

type_synonym component = "real \<times> real \<times> real \<times> real"

definition spec_evaluate :: "component list \<Rightarrow> real \<Rightarrow> real \<Rightarrow> real" where
  "spec_evaluate comps s t =
     s * (\<Sum>(a, d, f, p) \<leftarrow> comps. a * exp (- d * t) * sin (2 * pi * f * t + p))"

definition components_of :: "params \<Rightarrow> component list" where
  "components_of p =
     [(amp1 p, decay1 p, freq1 p, phase1 p), (amp2 p, decay2 p, freq2 p, phase2 p)]"

text \<open>
  The term of the delayed-event variant of the specification, section 4.4, for an
  amplitude, a decay rate \<open>alpha\<close>, a delay in seconds, an angular frequency
  \<open>omega\<close>, a factor \<open>pf\<close> on it and a time: the damped sine shifted by the delay,
  times the strict causal indicator \<open>(t - delay) > 0\<close>.
\<close>

definition event_term :: "real \<Rightarrow> real \<Rightarrow> real \<Rightarrow> real \<Rightarrow> real \<Rightarrow> real \<Rightarrow> real" where
  "event_term a alpha d omega pf t =
     a * exp (- alpha * (t - d)) * sin (omega * pf * (t - d)) * (if (t - d) > 0 then 1 else 0)"

section \<open>Reading a written expression back\<close>

text \<open>
  The repository writes expressions for the simulator and never reads them. The round-trip
  law of the specification re-parses the written text and substitutes a time; this is that
  reader, for the arithmetic the two writers use: decimal numbers, \<open>time\<close>,
  \<open>exp(...)\<close>, \<open>sin(...)\<close>, parentheses, unary minus, \<open>*\<close>, \<open>+\<close>, \<open>-\<close> and
  the comparison \<open>>\<close>, whose value is 1 where it holds and 0 elsewhere.
\<close>

datatype token =
    TNum real | TIdent string | TPlus | TMinus | TStar | TLParen | TRParen | TGreater
  | TOther char

text \<open>Digits, and the letters of a name.\<close>

definition is_digit :: "char \<Rightarrow> bool" where
  "is_digit c = (c \<in> set ''0123456789'')"

definition is_alpha :: "char \<Rightarrow> bool" where
  "is_alpha c = (c \<in> set ''abcdefghijklmnopqrstuvwxyzABCDEFGHIJKLMNOPQRSTUVWXYZ_'')"

definition digit_value :: "char \<Rightarrow> nat" where
  "digit_value c = length (takeWhile (\<lambda>d. d \<noteq> c) ''0123456789'')"

text \<open>
  The tokenizer reads one character at a time; its state is the number or name being read.
  A line that starts with \<open>+\<close> continues the line before it, so that \<open>+\<close> is
  dropped; blanks and line ends separate tokens.
\<close>

datatype lex_state = Start | LineStart | InInt nat | InFrac nat nat | InIdent string

fun emit :: "lex_state \<Rightarrow> token list" where
  "emit Start = []"
| "emit LineStart = []"
| "emit (InInt n) = [TNum (real n)]"
| "emit (InFrac n k) = [TNum (real n / 10 ^ k)]"
| "emit (InIdent s) = [TIdent s]"

definition symbol :: "char \<Rightarrow> token list" where
  "symbol c =
     (if c = CHR '' '' then []
      else if c = CHR ''+'' then [TPlus]
      else if c = CHR ''-'' then [TMinus]
      else if c = CHR ''*'' then [TStar]
      else if c = CHR ''('' then [TLParen]
      else if c = CHR '')'' then [TRParen]
      else if c = CHR ''>'' then [TGreater]
      else [TOther c])"

fun tokenize :: "lex_state \<Rightarrow> string \<Rightarrow> token list" where
  "tokenize st [] = emit st"
| "tokenize st (c # cs) =
     (if is_digit c then
        (case st of
           Start \<Rightarrow> tokenize (InInt (digit_value c)) cs
         | LineStart \<Rightarrow> tokenize (InInt (digit_value c)) cs
         | InInt n \<Rightarrow> tokenize (InInt (10 * n + digit_value c)) cs
         | InFrac n k \<Rightarrow> tokenize (InFrac (10 * n + digit_value c) (Suc k)) cs
         | InIdent s \<Rightarrow> tokenize (InIdent (s @ [c])) cs)
      else if is_alpha c then
        (case st of
           InIdent s \<Rightarrow> tokenize (InIdent (s @ [c])) cs
         | _ \<Rightarrow> emit st @ tokenize (InIdent [c]) cs)
      else if c = CHR ''.'' then
        (case st of
           InInt n \<Rightarrow> tokenize (InFrac n 0) cs
         | _ \<Rightarrow> emit st @ TOther c # tokenize Start cs)
      else if c = CHR 0x0A then emit st @ tokenize LineStart cs
      else if st = LineStart \<and> c = CHR ''+'' then tokenize Start cs
      else emit st @ symbol c @ tokenize Start cs)"

text \<open>Expressions and their value at a time \<open>t\<close>.\<close>

datatype expr =
    Num real | Time | Neg expr | Add expr expr | Sub expr expr | Mul expr expr
  | ExpF expr | SinF expr | Greater expr expr

fun eval_expr :: "expr \<Rightarrow> real \<Rightarrow> real" where
  "eval_expr (Num v) t = v"
| "eval_expr Time t = t"
| "eval_expr (Neg a) t = - eval_expr a t"
| "eval_expr (Add a b) t = eval_expr a t + eval_expr b t"
| "eval_expr (Sub a b) t = eval_expr a t - eval_expr b t"
| "eval_expr (Mul a b) t = eval_expr a t * eval_expr b t"
| "eval_expr (ExpF a) t = exp (eval_expr a t)"
| "eval_expr (SinF a) t = sin (eval_expr a t)"
| "eval_expr (Greater a b) t = (if eval_expr a t > eval_expr b t then 1 else 0)"

text \<open>
  The grammar, lowest precedence first: a comparison of two sums; a sum of products; a
  product of factors; a factor with any number of minus signs; a number, \<open>time\<close>, a
  function applied to a comparison in parentheses, or a comparison in parentheses.
  \<open>parse_rule sub\<close> is one rule, with \<open>sub\<close> for the rules it calls;
  \<open>parse n\<close> unrolls the rules \<open>n\<close> times and is \<open>None\<close> when that is not enough
  or the tokens are no expression.
\<close>

datatype grammar_rule = Cmp | Sum | SumRest expr | Prod | ProdRest expr | Unary | Primary

type_synonym parser = "grammar_rule \<Rightarrow> token list \<Rightarrow> (expr \<times> token list) option"

fun parse_rule :: "parser \<Rightarrow> parser" where
  "parse_rule sub Cmp ts =
     (case sub Sum ts of
        None \<Rightarrow> None
      | Some (a, r) \<Rightarrow>
          (case r of
             TGreater # r1 \<Rightarrow>
               (case sub Sum r1 of None \<Rightarrow> None | Some (b, r2) \<Rightarrow> Some (Greater a b, r2))
           | _ \<Rightarrow> Some (a, r)))"
| "parse_rule sub Sum ts =
     (case sub Prod ts of None \<Rightarrow> None | Some (a, r) \<Rightarrow> sub (SumRest a) r)"
| "parse_rule sub (SumRest a) ts =
     (case ts of
        TPlus # r \<Rightarrow>
          (case sub Prod r of None \<Rightarrow> None | Some (b, r1) \<Rightarrow> sub (SumRest (Add a b)) r1)
      | TMinus # r \<Rightarrow>
          (case sub Prod r of None \<Rightarrow> None | Some (b, r1) \<Rightarrow> sub (SumRest (Sub a b)) r1)
      | _ \<Rightarrow> Some (a, ts))"
| "parse_rule sub Prod ts =
     (case sub Unary ts of None \<Rightarrow> None | Some (a, r) \<Rightarrow> sub (ProdRest a) r)"
| "parse_rule sub (ProdRest a) ts =
     (case ts of
        TStar # r \<Rightarrow>
          (case sub Unary r of None \<Rightarrow> None | Some (b, r1) \<Rightarrow> sub (ProdRest (Mul a b)) r1)
      | _ \<Rightarrow> Some (a, ts))"
| "parse_rule sub Unary ts =
     (case ts of
        TMinus # r \<Rightarrow>
          (case sub Unary r of None \<Rightarrow> None | Some (a, r1) \<Rightarrow> Some (Neg a, r1))
      | _ \<Rightarrow> sub Primary ts)"
| "parse_rule sub Primary ts =
     (case ts of
        TNum v # r \<Rightarrow> Some (Num v, r)
      | TIdent s # r \<Rightarrow>
          (if s = ''time'' then Some (Time, r)
           else if s = ''exp'' \<or> s = ''sin'' then
             (case r of
                TLParen # r1 \<Rightarrow>
                  (case sub Cmp r1 of
                     Some (a, TRParen # r2) \<Rightarrow> Some (if s = ''exp'' then ExpF a else SinF a, r2)
                   | _ \<Rightarrow> None)
              | _ \<Rightarrow> None)
           else None)
      | TLParen # r \<Rightarrow>
          (case sub Cmp r of Some (a, TRParen # r1) \<Rightarrow> Some (a, r1) | _ \<Rightarrow> None)
      | _ \<Rightarrow> None)"

fun parse :: "nat \<Rightarrow> parser" where
  "parse 0 nt ts = None"
| "parse (Suc n) nt ts = parse_rule (parse n) nt ts"

text \<open>
  The value of a text at a time: the text must be one expression, with no token left over.
  Eight unrollings for each token are more than any text needs.
\<close>

definition expression_value :: "string \<Rightarrow> real \<Rightarrow> real option" where
  "expression_value s t =
     (let ts = tokenize Start s
      in case parse (8 * length ts + 8) Cmp ts of
           Some (e, []) \<Rightarrow> Some (eval_expr e t)
         | _ \<Rightarrow> None)"

text \<open>The text between the first \<open>{\<close> and the next \<open>}\<close>: the expression of \<open>VALUE={...}\<close>.\<close>

definition between_braces :: "string \<Rightarrow> string" where
  "between_braces s =
     takeWhile (\<lambda>c. c \<noteq> CHR ''}'') (drop 1 (dropWhile (\<lambda>c. c \<noteq> CHR ''{'') s))"

text \<open>
  What the reader makes of a field printed by \<open>format_f k\<close>: a minus sign when the
  number is negative, then the digits as a number.
\<close>

definition field_tokens :: "nat \<Rightarrow> real \<Rightarrow> token list" where
  "field_tokens k x = (if x < 0 then [TMinus] else []) @ [TNum (real (scaled_digits k x) / 10 ^ k)]"

definition field_expr :: "nat \<Rightarrow> real \<Rightarrow> expr" where
  "field_expr k x =
     (if x < 0 then Neg (Num (real (scaled_digits k x) / 10 ^ k))
      else Num (real (scaled_digits k x) / 10 ^ k))"

section \<open>A window and two optimizers to run the fitter on\<close>

text \<open>
  Eight samples of a cosine at a quarter of the sample rate, 8000 Hz: the spectrum has
  one peak, in bin 2, at 2000 Hz. \<open>curve_fit_failing\<close> always raises;
  \<open>curve_fit_feasible\<close> returns the initial guess when it lies within the bounds and
  raises otherwise, as scipy does for an infeasible \<open>x0\<close>.
\<close>

definition win8 :: "real list" where
  "win8 = [1, 0, - 1, 0, 1, 0, - 1, 0]"

definition fitter8 :: fitter where
  "fitter8 =
     \<lparr>sample_rate = 8000, data = Some win8,
      time = Some [0, 1 / 7000, 2 / 7000, 3 / 7000, 4 / 7000, 5 / 7000, 6 / 7000, 1 / 1000],
      filepath = ''tap.wav'', params = init_params\<rparr>"

definition curve_fit_failing :: curve_fit_fn where
  "curve_fit_failing f xdata ydata p0 bounds maxfev =
     Inl (RuntimeError ''Optimal parameters not found: The maximum number of function evaluations is exceeded.'')"

definition within_bounds :: "bound list \<Rightarrow> bound list \<Rightarrow> real list \<Rightarrow> bool" where
  "within_bounds lb ub xs =
     (length lb = length xs \<and> length ub = length xs
      \<and> list_all (\<lambda>i. bound_le_real (lb ! i) (xs ! i) \<and> real_le_bound (xs ! i) (ub ! i)) [0..<length xs])"

definition curve_fit_feasible :: curve_fit_fn where
  "curve_fit_feasible f xdata ydata p0 bounds maxfev =
     (if within_bounds (fst bounds) (snd bounds) p0 then Inr p0
      else Inl (ValueError ''x0 is infeasible.''))"

text \<open>
  What the documentation of \<open>curve_fit\<close> promises of every result: as many parameters
  as the initial guess has, each within its bounds.
\<close>

definition respects_bounds :: "curve_fit_fn \<Rightarrow> bool" where
  "respects_bounds curve_fit =
     (\<forall>f xdata ydata p0 lb ub maxfev popt.
        curve_fit f xdata ydata p0 (lb, ub) maxfev = Inr popt
          \<longrightarrow> length popt = length p0 \<and> within_bounds lb ub popt)"

text \<open>
  Three events and a parameter set: an amplitude below the first printed decimal, a delay
  below the last printed decimal of a second, a delay of a quarter of a second, and a first
  amplitude below the fifth decimal.
\<close>

definition event_faint :: signal_values where
  "event_faint = \<lparr>amplitude = 0.04, delay = 0, frequency = 1, damping = 0.6\<rparr>"


definition event_late :: signal_values where
  "event_late = \<lparr>amplitude = 2.5, delay = 250, frequency = 1, damping = 0.6\<rparr>"

definition params_faint :: params where
  "params_faint =
     \<lparr>amp1 = 0.000004, decay1 = 0, freq1 = 1, phase1 = 0,
      amp2 = 0, decay2 = 0, freq2 = 1, phase2 = 0, scale = 1\<rparr>"

section \<open>Properties\<close>

lemma show_nat_digit: "n < 10 \<Longrightarrow> show_nat n = [digit_char n]"
  by (subst show_nat.simps) simp

lemma show_nat_ge10: "10 \<le> n \<Longrightarrow> show_nat n = show_nat (n div 10) @ [digit_char (n mod 10)]"
  by (subst show_nat.simps) simp

lemma pad_digits_numeral:
  "pad_digits (numeral k) m = pad_digits (pred_numeral k) (m div 10) @ [digit_char (m mod 10)]"
  by (simp only: numeral_eq_Suc [of k] pad_digits.simps)

lemma digit_char_simps:
  "digit_char 0 = CHR ''0''" "digit_char (Suc 0) = CHR ''1''" "digit_char 1 = CHR ''1''"
  "digit_char 2 = CHR ''2''" "digit_char 3 = CHR ''3''" "digit_char 4 = CHR ''4''"
  "digit_char 5 = CHR ''5''" "digit_char 6 = CHR ''6''" "digit_char 7 = CHR ''7''"
  "digit_char 8 = CHR ''8''" "digit_char 9 = CHR ''9''"
  by (simp_all add: digit_char_def)

lemmas format_eval =
  format_f_def scaled_digits_def round_half_even_def show_nat_digit show_nat_ge10
  pad_digits_numeral digit_char_simps

lemma format_values:
  "format_f 5 3 = ''3.00000''" "format_f 5 10 = ''10.00000''" "format_f 5 100 = ''100.00000''"
  "format_f 5 0 = ''0.00000''" "format_f 5 1 = ''1.00000''" "format_f 5 50 = ''50.00000''"
  "format_f 5 400 = ''400.00000''" "format_f 1 100 = ''100.0''" "format_f 1 10 = ''10.0''"
  "format_f 1 400 = ''400.0''" "format_f 1 50 = ''50.0''"
  by (simp_all add: format_eval)

subsection \<open>The optimizer's contract and the eight-sample window\<close>

lemma cis_quarter_turns: "cis (- (real n * (pi / 2))) = (- \<i>) ^ n"
proof (induction n)
  case 0
  show ?case by simp
next
  case (Suc n)
  have "- (real (Suc n) * (pi / 2)) = - (real n * (pi / 2)) + - (pi / 2)"
    by (simp add: algebra_simps)
  then have "cis (- (real (Suc n) * (pi / 2))) = cis (- (real n * (pi / 2))) * cis (- (pi / 2))"
    by (simp only: cis_mult)
  with Suc show ?case by simp
qed

lemma cis_turn: "x = - (real n * (pi / 2)) \<Longrightarrow> cis x = (- \<i>) ^ n"
  by (simp only: cis_quarter_turns)

lemma cis_values:
  "cis (- pi) = - 1"
  "cis (- (3 * pi / 2)) = \<i>"
  "cis (- (pi * 2)) = 1"
  "cis (- (3 * pi)) = - 1"
  "cis (- (pi * 3)) = - 1"
  "cis (- (9 * pi / 2)) = - \<i>"
  "cis (- (pi * 3 / 2)) = \<i>"
  using cis_turn [of "- pi" 2] cis_turn [of "- (3 * pi / 2)" 3] cis_turn [of "- (pi * 2)" 4]
    cis_turn [of "- (3 * pi)" 6] cis_turn [of "- (9 * pi / 2)" 9]
  by (simp_all add: power_numeral_reduce mult.commute)

lemma upt8: "[0..<8] = [0, 1, 2, 3, 4, 5, 6, 7]"
  by (simp add: upt_rec)

lemma lessThan8: "{..<8::nat} = {0, 1, 2, 3, 4, 5, 6, 7}"
  by auto

lemma mag_win8:
  "map cmod (take 4 (map (\<lambda>k. \<Sum>m<8. complex_of_real (win8 ! m) * cis (- 2 * pi * real m * real k / real 8)) [0..<8]))
     = [0, 0, 4, 0]"
  by (simp add: upt8 win8_def lessThan8 cis_values)

lemma find_peaks_win8: "find_peaks [0, 0, 4, 0] (4 * 0.1) 50 = [2]"
  by (simp add: find_peaks_def local_maxima_1d_def local_maxima_loop.simps plateau_end.simps
      select_by_height_def select_by_peak_distance_def argsort_def clear_right.simps)

lemma freqs_win8: "take 4 (fftfreq 8 (1 / real_of_int 8000)) = [0, 1000, 2000, 3000]"
  by (simp add: fftfreq_def upto_rec1)

lemma analyze_win8: "analyze_spectrum 8000 win8 = Inr ([0, 0, 4, 0], [0, 1000, 2000, 3000], [2])"
proof -
  have len: "length win8 = 8" by (simp add: win8_def)
  have "fft win8 = Inr (map (\<lambda>k. \<Sum>m<8. complex_of_real (win8 ! m) * cis (- 2 * pi * real m * real k / real 8)) [0..<8])"
    by (simp add: fft_def len)
  then show ?thesis
    using mag_win8 freqs_win8 find_peaks_win8
    by (simp add: analyze_spectrum_def len np_max_def argsort_def)
qed

lemma guess_win8: "initial_guess [0, 1000, 2000, 3000] [2] win8 = [0.7, 20, 2000, 0, 0.3, 50, 4000, 0]"
  by (simp add: initial_guess_def win8_def)

lemma fit_failing_win8:
  "perform_auto_fit curve_fit_failing (fitter8\<lparr>params := p\<rparr>)
     = Inr (fit_failed (fitter8\<lparr>params := p\<rparr>) p [0.7, 20, 2000, 0, 0.3, 50, 4000, 0]
             (RuntimeError ''Optimal parameters not found: The maximum number of function evaluations is exceeded.''))"
  by (simp add: perform_auto_fit_def fitter8_def analyze_win8 guess_win8 curve_fit_failing_def)

lemma guess_feasible: "within_bounds lower_bounds upper_bounds [0.7, 20, 2000, 0, 0.3, 50, 4000, 0]"
  by (simp add: within_bounds_def lower_bounds_def upper_bounds_def upt8)

lemma fit_feasible_win8:
  "perform_auto_fit curve_fit_feasible fitter8
     = Inr (fitter8\<lparr>params := init_params\<lparr>amp1 := 0.7, decay1 := 20, freq1 := 2000, phase1 := 0,
                                           amp2 := 0.3, decay2 := 50, freq2 := 4000, phase2 := 0\<rparr>\<rparr>,
            [''Analyzing signal spectrum...'', ''Running Least Squares Optimization...'', ''Fit successful.''])"
  using guess_feasible
  by (simp add: perform_auto_fit_def fitter8_def analyze_win8 guess_win8 curve_fit_feasible_def)

lemma respects_bounds_feasible: "respects_bounds curve_fit_feasible"
  by (auto simp: respects_bounds_def curve_fit_feasible_def within_bounds_def split: if_splits)

lemma list8:
  assumes "length xs = 8"
  shows "xs = [xs ! 0, xs ! 1, xs ! 2, xs ! 3, xs ! 4, xs ! 5, xs ! 6, xs ! 7]"
  using assms by (auto simp: list_eq_iff_nth_eq upt8 less_Suc_eq numeral_eq_Suc nth_Cons')

lemma within_bounds8:
  assumes "within_bounds lower_bounds upper_bounds [a1, d1, f1, p1, a2, d2, f2, p2]"
  shows "0 \<le> d1 \<and> d1 \<le> 1000 \<and> 1 \<le> f1 \<and> f1 \<le> 20000 \<and> - pi \<le> p1 \<and> p1 \<le> pi
       \<and> 0 \<le> d2 \<and> d2 \<le> 1000 \<and> 1 \<le> f2 \<and> f2 \<le> 20000 \<and> - pi \<le> p2 \<and> p2 \<le> pi"
  using assms by (simp add: within_bounds_def lower_bounds_def upper_bounds_def upt8)

lemma argsort_set: "set (argsort xs) = {0..<length xs}"
  by (simp add: argsort_def)

lemma argsort_sorted: "sorted (map (\<lambda>i. xs ! i) (argsort xs))"
  by (simp add: argsort_def sorted_sort_key)

lemma analyze_sorted:
  assumes "analyze_spectrum sr ys = Inr (mag, freqs, spi)"
  shows "sorted (rev (map (\<lambda>p. mag ! p) spi))"
proof -
  from assms obtain peaks where spi: "spi = map (\<lambda>i. peaks ! i) (rev (argsort (map (\<lambda>p. mag ! p) peaks)))"
    by (auto simp: analyze_spectrum_def Let_def split: sum.splits if_splits)
  let ?pri = "map (\<lambda>p. mag ! p) peaks"
  have "\<forall>i \<in> set (argsort ?pri). i < length peaks"
    by (simp add: argsort_set)
  then have eq: "map (\<lambda>i. mag ! (peaks ! i)) (argsort ?pri) = map (\<lambda>i. ?pri ! i) (argsort ?pri)"
    by (intro map_cong refl) simp
  have "rev (map (\<lambda>p. mag ! p) spi) = map (\<lambda>i. mag ! (peaks ! i)) (argsort ?pri)"
    by (simp add: spi rev_map comp_def)
  also note eq
  finally show ?thesis
    using argsort_sorted [of ?pri] by (simp only:)
qed

subsection \<open>The reader on the written expressions\<close>

lemma parse_Cmp:
  "parse (numeral k) Cmp ts =
     (case parse (pred_numeral k) Sum ts of
        None \<Rightarrow> None
      | Some (a, r) \<Rightarrow>
          (case r of
             TGreater # r1 \<Rightarrow>
               (case parse (pred_numeral k) Sum r1 of None \<Rightarrow> None | Some (b, r2) \<Rightarrow> Some (Greater a b, r2))
           | _ \<Rightarrow> Some (a, r)))"
  by (simp only: numeral_eq_Suc [of k] parse.simps parse_rule.simps)

lemma parse_Sum:
  "parse (numeral k) Sum ts =
     (case parse (pred_numeral k) Prod ts of None \<Rightarrow> None | Some (a, r) \<Rightarrow> parse (pred_numeral k) (SumRest a) r)"
  by (simp only: numeral_eq_Suc [of k] parse.simps parse_rule.simps)

lemma parse_SumRest:
  "parse (numeral k) (SumRest a) ts =
     (case ts of
        TPlus # r \<Rightarrow>
          (case parse (pred_numeral k) Prod r of None \<Rightarrow> None | Some (b, r1) \<Rightarrow> parse (pred_numeral k) (SumRest (Add a b)) r1)
      | TMinus # r \<Rightarrow>
          (case parse (pred_numeral k) Prod r of None \<Rightarrow> None | Some (b, r1) \<Rightarrow> parse (pred_numeral k) (SumRest (Sub a b)) r1)
      | _ \<Rightarrow> Some (a, ts))"
  by (simp only: numeral_eq_Suc [of k] parse.simps parse_rule.simps)

lemma parse_Prod:
  "parse (numeral k) Prod ts =
     (case parse (pred_numeral k) Unary ts of None \<Rightarrow> None | Some (a, r) \<Rightarrow> parse (pred_numeral k) (ProdRest a) r)"
  by (simp only: numeral_eq_Suc [of k] parse.simps parse_rule.simps)

lemma parse_ProdRest:
  "parse (numeral k) (ProdRest a) ts =
     (case ts of
        TStar # r \<Rightarrow>
          (case parse (pred_numeral k) Unary r of None \<Rightarrow> None | Some (b, r1) \<Rightarrow> parse (pred_numeral k) (ProdRest (Mul a b)) r1)
      | _ \<Rightarrow> Some (a, ts))"
  by (simp only: numeral_eq_Suc [of k] parse.simps parse_rule.simps)

lemma parse_Primary:
  "parse (numeral k) Primary ts =
     (case ts of
        TNum v # r \<Rightarrow> Some (Num v, r)
      | TIdent s # r \<Rightarrow>
          (if s = ''time'' then Some (Time, r)
           else if s = ''exp'' \<or> s = ''sin'' then
             (case r of
                TLParen # r1 \<Rightarrow>
                  (case parse (pred_numeral k) Cmp r1 of
                     Some (a, TRParen # r2) \<Rightarrow> Some (if s = ''exp'' then ExpF a else SinF a, r2)
                   | _ \<Rightarrow> None)
              | _ \<Rightarrow> None)
           else None)
      | TLParen # r \<Rightarrow>
          (case parse (pred_numeral k) Cmp r of Some (a, TRParen # r1) \<Rightarrow> Some (a, r1) | _ \<Rightarrow> None)
      | _ \<Rightarrow> None)"
  by (simp only: numeral_eq_Suc [of k] parse.simps parse_rule.simps)

lemma parse_Unary_minus:
  "parse (numeral k) Unary (TMinus # r) =
     (case parse (pred_numeral k) Unary r of None \<Rightarrow> None | Some (a, r1) \<Rightarrow> Some (Neg a, r1))"
  by (simp only: numeral_eq_Suc [of k] parse.simps parse_rule.simps list.case token.case)

lemma parse_Unary_other:
  "parse (numeral k) Unary (TNum v # r) = parse (pred_numeral k) Primary (TNum v # r)"
  "parse (numeral k) Unary (TIdent s # r) = parse (pred_numeral k) Primary (TIdent s # r)"
  "parse (numeral k) Unary (TLParen # r) = parse (pred_numeral k) Primary (TLParen # r)"
  by (simp_all only: numeral_eq_Suc [of k] parse.simps parse_rule.simps list.case token.case)

lemmas parse_steps = parse_Cmp parse_Sum parse_SumRest parse_Prod parse_ProdRest parse_Primary parse_Unary_minus parse_Unary_other

lemmas lex_eval = is_digit_def is_alpha_def digit_value_def symbol_def

lemma paren_mono:
  assumes "\<And>nt ts r. f nt ts = Some r \<Longrightarrow> g nt ts = Some r"
    and "(case f Cmp r1 of Some (a, TRParen # r2) \<Rightarrow> Some (h a, r2) | _ \<Rightarrow> None) = Some r"
  shows "(case g Cmp r1 of Some (a, TRParen # r2) \<Rightarrow> Some (h a, r2) | _ \<Rightarrow> None) = Some r"
proof -
  from assms(2) obtain a r2 where 1: "f Cmp r1 = Some (a, TRParen # r2)" and 2: "r = (h a, r2)"
    by (auto split: option.splits list.splits token.splits)
  from assms(1) [OF 1] 2 show ?thesis by simp
qed

lemma parse_rule_mono_Primary:
  assumes "\<And>nt ts r. f nt ts = Some r \<Longrightarrow> g nt ts = Some r"
    and "parse_rule f Primary ts = Some r"
  shows "parse_rule g Primary ts = Some r"
proof (cases ts)
  case Nil
  with assms(2) show ?thesis by simp
next
  case (Cons tok rest)
  show ?thesis
  proof (cases tok)
    case (TIdent s)
    show ?thesis
    proof (cases "s = ''exp'' \<or> s = ''sin''")
      case True
      show ?thesis
      proof (cases rest)
        case Nil
        with assms(2) Cons TIdent True show ?thesis by auto
      next
        case (Cons t2 r1)
        show ?thesis
        proof (cases "t2 = TLParen")
          case True
          have ts: "ts = TIdent s # TLParen # r1"
            using True \<open>ts = tok # rest\<close> TIdent Cons by simp
          have nt: "s \<noteq> ''time''" using \<open>s = ''exp'' \<or> s = ''sin''\<close> by auto
          have "(case f Cmp r1 of Some (a, TRParen # r2) \<Rightarrow> Some ((if s = ''exp'' then ExpF else SinF) a, r2) | _ \<Rightarrow> None) = Some r"
            using assms(2) \<open>s = ''exp'' \<or> s = ''sin''\<close> nt unfolding ts
            by (simp add: if_distrib [of "\<lambda>h. h _"] cong: option.case_cong list.case_cong token.case_cong)
          from paren_mono [where f = f and g = g and h = "if s = ''exp'' then ExpF else SinF", OF assms(1) this]
          show ?thesis
            using \<open>s = ''exp'' \<or> s = ''sin''\<close> nt unfolding ts
            by (simp add: if_distrib [of "\<lambda>h. h _"] cong: option.case_cong list.case_cong token.case_cong)
        next
          case False
          with assms(2) \<open>ts = tok # rest\<close> TIdent \<open>s = ''exp'' \<or> s = ''sin''\<close> Cons
          show ?thesis by (cases t2) auto
        qed
      qed
    next
      case False
      with assms(2) Cons TIdent show ?thesis by (auto split: if_splits)
    qed
  next
    case TLParen
    with assms(2) Cons have "(case f Cmp rest of Some (a, TRParen # r2) \<Rightarrow> Some ((\<lambda>x. x) a, r2) | _ \<Rightarrow> None) = Some r"
      by simp
    from paren_mono [where f = f and g = g and h = "\<lambda>x. x", OF assms(1) this] TLParen Cons show ?thesis by simp
  qed (use assms(2) Cons in auto)
qed

lemma parse_rule_mono:
  assumes "\<And>nt ts r. f nt ts = Some r \<Longrightarrow> g nt ts = Some r"
    and "parse_rule f nt ts = Some r"
  shows "parse_rule g nt ts = Some r"
proof (cases nt)
  case Primary
  with assms parse_rule_mono_Primary [of f g ts r] show ?thesis by blast
qed (use assms(2) in \<open>auto split: option.splits list.splits token.splits dest!: assms(1)\<close>)

lemma parse_mono: "parse n nt ts = Some r \<Longrightarrow> parse (Suc n) nt ts = Some r"
proof (induction n arbitrary: nt ts r)
  case 0
  then show ?case by simp
next
  case (Suc n)
  from Suc.prems have "parse_rule (parse n) nt ts = Some r" by simp
  with Suc.IH have "parse_rule (parse (Suc n)) nt ts = Some r"
    by (rule parse_rule_mono [where f = "parse n" and g = "parse (Suc n)"])
  then show ?case by simp
qed

lemma parse_mono_le: "parse n nt ts = Some r \<Longrightarrow> n \<le> m \<Longrightarrow> parse m nt ts = Some r"
proof (induction m)
  case 0
  then show ?case by simp
next
  case (Suc m)
  show ?case
  proof (cases "n = Suc m")
    case True
    with Suc.prems show ?thesis by simp
  next
    case False
    with Suc.prems have "n \<le> m" by simp
    with Suc have "parse m nt ts = Some r" by blast
    then show ?thesis by (rule parse_mono)
  qed
qed

lemma expression_valueI:
  assumes "tokenize Start s = ts" "parse n Cmp ts = Some (e, [])" "n \<le> 8 * length ts + 8"
  shows "expression_value s t = Some (eval_expr e t)"
  using parse_mono_le [OF assms(2,3)] assms(1) by (simp add: expression_value_def)

lemma digit_cases: "d < 10 \<Longrightarrow> d = 0 \<or> d = 1 \<or> d = 2 \<or> d = 3 \<or> d = 4 \<or> d = 5 \<or> d = 6 \<or> d = 7 \<or> d = 8 \<or> d = (9::nat)"
  by arith

lemma digit_char_digit: "d < 10 \<Longrightarrow> is_digit (digit_char d) \<and> digit_value (digit_char d) = d"
  by (drule digit_cases) (elim disjE; simp add: digit_char_simps lex_eval)

lemma tokenize_InInt_digits:
  "\<forall>c\<in>set ds. is_digit c \<Longrightarrow>
   tokenize (InInt n) (ds @ rest) = tokenize (InInt (foldl (\<lambda>a c. 10 * a + digit_value c) n ds)) rest"
  by (induction ds arbitrary: n) simp_all

lemma tokenize_InFrac_digits:
  "\<forall>c\<in>set ds. is_digit c \<Longrightarrow>
   tokenize (InFrac n k) (ds @ rest)
     = tokenize (InFrac (foldl (\<lambda>a c. 10 * a + digit_value c) n ds) (k + length ds)) rest"
  by (induction ds arbitrary: n k) simp_all

lemma tokenize_Start_digits:
  "\<forall>c\<in>set ds. is_digit c \<Longrightarrow> ds \<noteq> [] \<Longrightarrow>
   tokenize Start (ds @ rest) = tokenize (InInt (foldl (\<lambda>a c. 10 * a + digit_value c) 0 ds)) rest"
  by (cases ds) (simp_all add: tokenize_InInt_digits)

lemma show_nat_digits:
  "(\<forall>c\<in>set (show_nat a). is_digit c) \<and> show_nat a \<noteq> []
   \<and> foldl (\<lambda>a c. 10 * a + digit_value c) 0 (show_nat a) = a"
proof (induction a rule: show_nat.induct)
  case (1 n)
  show ?case
  proof (cases "n < 10")
    case True
    then show ?thesis by (simp add: show_nat_digit digit_char_digit)
  next
    case False
    then have eq: "show_nat n = show_nat (n div 10) @ [digit_char (n mod 10)]"
      by (simp add: show_nat_ge10)
    have d: "is_digit (digit_char (n mod 10)) \<and> digit_value (digit_char (n mod 10)) = n mod 10"
      by (rule digit_char_digit) simp
    from 1 [OF False] d show ?thesis by (simp add: eq)
  qed
qed

lemma pad_digits_digits:
  "(\<forall>c\<in>set (pad_digits k b). is_digit c) \<and> length (pad_digits k b) = k
   \<and> foldl (\<lambda>a c. 10 * a + digit_value c) n (pad_digits k b) = n * 10 ^ k + b mod 10 ^ k"
proof (induction k arbitrary: b)
  case 0
  show ?case by simp
next
  case (Suc k)
  have d: "is_digit (digit_char (b mod 10)) \<and> digit_value (digit_char (b mod 10)) = b mod 10"
    by (rule digit_char_digit) simp
  have m: "b mod (10 * 10 ^ k) = 10 * ((b div 10) mod 10 ^ k) + b mod 10"
    by (simp add: mod_mult2_eq)
  from Suc [of "b div 10"] d show ?case
    by (simp add: m algebra_simps)
qed

lemma tokenize_break:
  "\<not> is_digit c \<Longrightarrow> \<not> is_alpha c \<Longrightarrow> c \<noteq> CHR ''.'' \<Longrightarrow> c \<noteq> CHR 0x0A \<Longrightarrow>
   st \<noteq> LineStart \<Longrightarrow> tokenize st (c # rest) = emit st @ tokenize Start (c # rest)"
  by simp

lemma tokenize_number:
  assumes "\<not> is_digit c" "\<not> is_alpha c" "c \<noteq> CHR ''.''" "c \<noteq> CHR 0x0A"
  shows "tokenize Start (show_nat a @ ''.'' @ pad_digits k b @ c # rest)
           = TNum (real (a * 10 ^ k + b mod 10 ^ k) / 10 ^ k) # tokenize Start (c # rest)"
proof -
  have "tokenize Start (show_nat a @ ''.'' @ pad_digits k b @ c # rest)
      = tokenize (InInt a) (''.'' @ pad_digits k b @ c # rest)"
    using show_nat_digits [of a] by (simp add: tokenize_Start_digits)
  also have "\<dots> = tokenize (InFrac a 0) (pad_digits k b @ c # rest)"
    by (simp add: lex_eval)
  also have "\<dots> = tokenize (InFrac (a * 10 ^ k + b mod 10 ^ k) k) (c # rest)"
    using pad_digits_digits [of k b a] by (simp add: tokenize_InFrac_digits)
  also have "\<dots> = TNum (real (a * 10 ^ k + b mod 10 ^ k) / 10 ^ k) # tokenize Start (c # rest)"
    using assms by (subst tokenize_break) simp_all
  finally show ?thesis .
qed

lemma tokenize_format_f:
  assumes "\<not> is_digit c" "\<not> is_alpha c" "c \<noteq> CHR ''.''" "c \<noteq> CHR 0x0A" "0 < k"
  shows "tokenize Start (format_f k x @ c # rest) = field_tokens k x @ tokenize Start (c # rest)"
proof -
  define n where "n = scaled_digits k x"
  have "n div 10 ^ k * 10 ^ k + n mod 10 ^ k = n" by (rule div_mult_mod_eq)
  then have n: "n div 10 ^ k * 10 ^ k + n mod 10 ^ k mod 10 ^ k = n" by simp
  have num: "tokenize Start (show_nat (n div 10 ^ k) @ CHR ''.'' # pad_digits k (n mod 10 ^ k) @ c # rest)
      = TNum (real n / 10 ^ k) # tokenize Start (c # rest)"
    using tokenize_number [OF assms(1-4), of "n div 10 ^ k" k "n mod 10 ^ k" rest]
    by (simp only: n append_Cons append_Nil)
  show ?thesis
  proof (cases "x < 0")
    case True
    have "tokenize Start (format_f k x @ c # rest)
        = tokenize Start (CHR ''-'' # (show_nat (n div 10 ^ k) @ ''.'' @ pad_digits k (n mod 10 ^ k) @ c # rest))"
      using True assms(5) by (simp add: format_f_def n_def Let_def)
    also have "\<dots> = TMinus # tokenize Start (show_nat (n div 10 ^ k) @ ''.'' @ pad_digits k (n mod 10 ^ k) @ c # rest)"
      by (simp add: lex_eval)
    finally show ?thesis
      using True by (simp add: num field_tokens_def n_def [symmetric] del: tokenize.simps)
  next
    case False
    have "tokenize Start (format_f k x @ c # rest)
        = tokenize Start (show_nat (n div 10 ^ k) @ ''.'' @ pad_digits k (n mod 10 ^ k) @ c # rest)"
      using False assms(5) by (simp add: format_f_def n_def Let_def)
    then show ?thesis
      using False by (simp add: num field_tokens_def n_def [symmetric] del: tokenize.simps)
  qed
qed

lemma parse_field:
  "3 \<le> n \<Longrightarrow> parse n Unary (field_tokens k x @ rest) = Some (field_expr k x, rest)"
proof -
  assume "3 \<le> n"
  then obtain m where n: "n = Suc (Suc (Suc m))"
    by (metis Suc_le_D numeral_3_eq_3 Suc_le_mono)
  show ?thesis by (simp add: n field_tokens_def field_expr_def)
qed

lemma eval_field: "eval_expr (field_expr k x) t = fixed_value k x"
  by (simp add: field_expr_def fixed_value_def)

lemma length_field_tokens: "length (field_tokens k x) = (if x < 0 then 2 else 1)"
  by (simp add: field_tokens_def)

lemma tokens_event:
  "tokenize Start (event_expression v) =
     (let amp = amplitude v; d = delay v / 1000; omega = 2 * pi * frequency v;
          alpha = damping v * omega; pf = sqrt (1 - (damping v)\<^sup>2)
      in field_tokens 1 amp @ [TStar, TIdent ''exp'', TLParen, TMinus] @ field_tokens 8 alpha
         @ [TStar, TLParen, TIdent ''time'', TMinus] @ field_tokens 6 d
         @ [TRParen, TRParen, TStar, TIdent ''sin'', TLParen] @ field_tokens 8 omega
         @ [TStar] @ field_tokens 8 pf @ [TStar, TLParen, TIdent ''time'', TMinus]
         @ field_tokens 6 d @ [TRParen, TRParen, TStar, TLParen, TLParen, TIdent ''time'', TMinus]
         @ field_tokens 6 d @ [TRParen, TGreater, TNum 0, TRParen])"
  by (simp add: event_expression_def Let_def tokenize_format_f lex_eval)

lemma parse_event:
  "parse 100 Cmp
     (field_tokens 1 amp @ [TStar, TIdent ''exp'', TLParen, TMinus] @ field_tokens 8 alpha
         @ [TStar, TLParen, TIdent ''time'', TMinus] @ field_tokens 6 d
         @ [TRParen, TRParen, TStar, TIdent ''sin'', TLParen] @ field_tokens 8 omega
         @ [TStar] @ field_tokens 8 pf @ [TStar, TLParen, TIdent ''time'', TMinus]
         @ field_tokens 6 d @ [TRParen, TRParen, TStar, TLParen, TLParen, TIdent ''time'', TMinus]
         @ field_tokens 6 d @ [TRParen, TGreater, TNum 0, TRParen])
   = Some (Mul (Mul (Mul (field_expr 1 amp)
                  (ExpF (Mul (Neg (field_expr 8 alpha)) (Sub Time (field_expr 6 d)))))
             (SinF (Mul (Mul (field_expr 8 omega) (field_expr 8 pf)) (Sub Time (field_expr 6 d)))))
        (Greater (Sub Time (field_expr 6 d)) (Num 0)), [])"
  by (simp add: parse_steps parse_field del: parse.simps parse_rule.simps)

lemma expression_value_event:
  "expression_value (event_expression v) t =
     Some (fixed_value 1 (amplitude v)
           * exp (- fixed_value 8 (damping v * (2 * pi * frequency v))
                    * (t - fixed_value 6 (delay v / 1000)))
           * sin (fixed_value 8 (2 * pi * frequency v) * fixed_value 8 (sqrt (1 - (damping v)\<^sup>2))
                    * (t - fixed_value 6 (delay v / 1000)))
           * (if t - fixed_value 6 (delay v / 1000) > 0 then 1 else 0))"
proof -
  have "expression_value (event_expression v) t = Some (eval_expr
     (Mul (Mul (Mul (field_expr 1 (amplitude v))
                  (ExpF (Mul (Neg (field_expr 8 (damping v * (2 * pi * frequency v)))) (Sub Time (field_expr 6 (delay v / 1000))))))
             (SinF (Mul (Mul (field_expr 8 (2 * pi * frequency v)) (field_expr 8 (sqrt (1 - (damping v)\<^sup>2)))) (Sub Time (field_expr 6 (delay v / 1000))))))
        (Greater (Sub Time (field_expr 6 (delay v / 1000))) (Num 0))) t)"
    by (rule expression_valueI [OF tokens_event [unfolded Let_def] parse_event])
       (simp add: length_field_tokens)
  then show ?thesis by (simp add: eval_field)
qed

lemma format_f_chars:
  assumes "c \<in> set (format_f k x)"
  shows "is_digit c \<or> c = CHR ''-'' \<or> c = CHR ''.''"
  using assms show_nat_digits [of "scaled_digits k x div 10 ^ k"]
    pad_digits_digits [of k "scaled_digits k x mod 10 ^ k" 0]
  by (auto simp: format_f_def Let_def split: if_splits)

lemma dropWhile_format_f:
  "dropWhile (\<lambda>c. c \<noteq> CHR ''{'') (format_f k x @ rest) = dropWhile (\<lambda>c. c \<noteq> CHR ''{'') rest"
proof -
  have "\<forall>c\<in>set (format_f k x). c \<noteq> CHR ''{''"
    using format_f_chars [of _ k x] by (auto simp: lex_eval)
  then show ?thesis by (simp add: dropWhile_append)
qed

lemma takeWhile_format_f:
  "takeWhile (\<lambda>c. c \<noteq> CHR ''}'') (format_f k x @ rest)
     = format_f k x @ takeWhile (\<lambda>c. c \<noteq> CHR ''}'') rest"
proof -
  have "\<forall>c\<in>set (format_f k x). c \<noteq> CHR ''}''"
    using format_f_chars [of _ k x] by (auto simp: lex_eval)
  then show ?thesis by (simp add: takeWhile_append)
qed

lemma between_braces_spice_content:
  "between_braces (spice_content p)
     = ''\<newline>+ '' @ comp1 p @ '' \<newline>+ + \<newline>+ '' @ comp2 p @ ''\<newline>+ ''"
  by (simp add: between_braces_def spice_content_def model_name_def comp1_def comp2_def
      comp_string_def dropWhile_format_f takeWhile_format_f Let_def)

lemma tokens_value_block:
  "tokenize Start (''\<newline>+ '' @ comp_string a1 d1 f1 p1 @ '' \<newline>+ + \<newline>+ ''
                   @ comp_string a2 d2 f2 p2 @ ''\<newline>+ '')
     = field_tokens 5 a1 @ [TStar, TIdent ''exp'', TLParen, TMinus] @ field_tokens 5 d1
       @ [TStar, TIdent ''time'', TRParen, TStar, TIdent ''sin'', TLParen, TNum (6283185 / 10 ^ 6), TStar]
       @ field_tokens 5 f1 @ [TStar, TIdent ''time'', TPlus] @ field_tokens 5 p1 @ [TRParen, TPlus]
       @ field_tokens 5 a2 @ [TStar, TIdent ''exp'', TLParen, TMinus] @ field_tokens 5 d2
       @ [TStar, TIdent ''time'', TRParen, TStar, TIdent ''sin'', TLParen, TNum (6283185 / 10 ^ 6), TStar]
       @ field_tokens 5 f2 @ [TStar, TIdent ''time'', TPlus] @ field_tokens 5 p2 @ [TRParen]"
  by (simp add: comp_string_def tokenize_format_f lex_eval)

lemma parse_value_block:
  "parse 100 Cmp
     (field_tokens 5 a1 @ [TStar, TIdent ''exp'', TLParen, TMinus] @ field_tokens 5 d1
       @ [TStar, TIdent ''time'', TRParen, TStar, TIdent ''sin'', TLParen, TNum c, TStar]
       @ field_tokens 5 f1 @ [TStar, TIdent ''time'', TPlus] @ field_tokens 5 p1 @ [TRParen, TPlus]
       @ field_tokens 5 a2 @ [TStar, TIdent ''exp'', TLParen, TMinus] @ field_tokens 5 d2
       @ [TStar, TIdent ''time'', TRParen, TStar, TIdent ''sin'', TLParen, TNum c, TStar]
       @ field_tokens 5 f2 @ [TStar, TIdent ''time'', TPlus] @ field_tokens 5 p2 @ [TRParen])
   = Some (Add
       (Mul (Mul (field_expr 5 a1) (ExpF (Mul (Neg (field_expr 5 d1)) Time)))
            (SinF (Add (Mul (Mul (Num c) (field_expr 5 f1)) Time) (field_expr 5 p1))))
       (Mul (Mul (field_expr 5 a2) (ExpF (Mul (Neg (field_expr 5 d2)) Time)))
            (SinF (Add (Mul (Mul (Num c) (field_expr 5 f2)) Time) (field_expr 5 p2)))), [])"
  by (simp add: parse_steps parse_field del: parse.simps parse_rule.simps)

lemma expression_value_block:
  "expression_value (''\<newline>+ '' @ comp_string a1 d1 f1 p1 @ '' \<newline>+ + \<newline>+ ''
                   @ comp_string a2 d2 f2 p2 @ ''\<newline>+ '') t
     = Some (fixed_value 5 a1 * exp (- fixed_value 5 d1 * t)
               * sin (6.283185 * fixed_value 5 f1 * t + fixed_value 5 p1)
             + fixed_value 5 a2 * exp (- fixed_value 5 d2 * t)
               * sin (6.283185 * fixed_value 5 f2 * t + fixed_value 5 p2))"
proof -
  have "expression_value (''\<newline>+ '' @ comp_string a1 d1 f1 p1 @ '' \<newline>+ + \<newline>+ ''
                   @ comp_string a2 d2 f2 p2 @ ''\<newline>+ '') t
     = Some (eval_expr (Add
       (Mul (Mul (field_expr 5 a1) (ExpF (Mul (Neg (field_expr 5 d1)) Time)))
            (SinF (Add (Mul (Mul (Num (6283185 / 10 ^ 6)) (field_expr 5 f1)) Time) (field_expr 5 p1))))
       (Mul (Mul (field_expr 5 a2) (ExpF (Mul (Neg (field_expr 5 d2)) Time)))
            (SinF (Add (Mul (Mul (Num (6283185 / 10 ^ 6)) (field_expr 5 f2)) Time) (field_expr 5 p2))))) t)"
    by (rule expression_valueI [OF tokens_value_block parse_value_block])
       (simp add: length_field_tokens)
  then show ?thesis by (simp add: eval_field)
qed

lemma round_half_even_bounds: "\<bar>real_of_int (round_half_even y) - y\<bar> \<le> 1 / 2"
  unfolding round_half_even_def Let_def by (auto simp: abs_if) linarith+

lemma fixed_value_error: "\<bar>fixed_value k x - x\<bar> \<le> 1 / (2 * 10 ^ k)"
proof -
  define y where "y = \<bar>x\<bar> * 10 ^ k"
  have y0: "0 \<le> y" by (simp add: y_def)
  have r0: "0 \<le> round_half_even y"
    using y0 unfolding round_half_even_def Let_def by (auto simp: zero_le_floor) 
  have b: "\<bar>real_of_int (round_half_even y) - y\<bar> \<le> 1 / 2" by (rule round_half_even_bounds)
  have sd: "real (scaled_digits k x) = real_of_int (round_half_even y)"
    using r0 by (simp add: scaled_digits_def y_def)
  have "\<bar>real (scaled_digits k x) / 10 ^ k - \<bar>x\<bar>\<bar> = \<bar>real_of_int (round_half_even y) - y\<bar> / 10 ^ k"
    by (simp add: sd y_def field_simps abs_divide flip: abs_mult)
  also have "\<dots> \<le> (1 / 2) / 10 ^ k"
    using b by (intro divide_right_mono) simp_all
  finally have e: "\<bar>real (scaled_digits k x) / 10 ^ k - \<bar>x\<bar>\<bar> \<le> 1 / (2 * 10 ^ k)" by simp
  show ?thesis
  proof (cases "x < 0")
    case True
    then have "fixed_value k x - x = - (real (scaled_digits k x) / 10 ^ k - \<bar>x\<bar>)"
      by (simp add: fixed_value_def)
    with e show ?thesis by simp
  next
    case False
    then have "fixed_value k x - x = real (scaled_digits k x) / 10 ^ k - \<bar>x\<bar>"
      by (simp add: fixed_value_def)
    with e show ?thesis by simp
  qed
qed

lemmas fixed_eval = fixed_value_def scaled_digits_def round_half_even_def

lemma event_term_gate: "t \<le> d \<Longrightarrow> event_term a alpha d omega pf t = 0"
  by (simp add: event_term_def)


lemma calculate_signal_at_term:
  "calculate_signal_at v t
     = event_term (amplitude v) (damping v * (2 * pi * frequency v)) (delay v / 1000)
         (2 * pi * frequency v) (sqrt (1 - (damping v)\<^sup>2)) t"
  by (simp add: calculate_signal_at_def event_term_def Let_def)

lemma expression_value_event_term:
  "expression_value (event_expression v) t
     = Some (event_term (fixed_value 1 (amplitude v))
               (fixed_value 8 (damping v * (2 * pi * frequency v)))
               (fixed_value 6 (delay v / 1000))
               (fixed_value 8 (2 * pi * frequency v))
               (fixed_value 8 (sqrt (1 - (damping v)\<^sup>2))) t)"
  by (simp add: expression_value_event event_term_def)

lemma expression_value_spice_content:
  "expression_value (between_braces (spice_content p)) t
     = Some (fixed_value 5 (amp1 p * scale p) * exp (- fixed_value 5 (decay1 p) * t)
               * sin (6.283185 * fixed_value 5 (freq1 p) * t + fixed_value 5 (phase1 p))
             + fixed_value 5 (amp2 p * scale p) * exp (- fixed_value 5 (decay2 p) * t)
               * sin (6.283185 * fixed_value 5 (freq2 p) * t + fixed_value 5 (phase2 p)))"
  by (simp only: between_braces_spice_content comp1_def comp2_def Let_def expression_value_block)

lemma sqrt_faint: "sqrt (1 - (3 / 5 :: real)\<^sup>2) = 4 / 5"
  by (rule real_sqrt_unique) (simp_all add: power2_eq_square)

lemma generate_loop_hidden:
  "generate_loop cs first model = generate_loop (filter is_visible cs) first model"
  by (induction cs arbitrary: first model) simp_all

lemma generate_loop_later:
  "\<forall>c\<in>set cs. is_visible c \<Longrightarrow>
   generate_loop cs False model
     = model @ concat (map (\<lambda>c. ''+\<newline>+ '' @ event_expression (get_values c)) cs)"
  by (induction cs arbitrary: model) simp_all

lemma generate_spice_model_text:
  "generate_spice_model now cs =
     ''* Multiple Piezoelectric Sensor Response Library\<newline>''
     @ ''* Generated: '' @ now @ ''\<newline>''
     @ ''* Dynamic multi-signal configuration\<newline>''
     @ ''\<newline>''
     @ ''.SUBCKT MULTI_PIEZO out gnd\<newline>''
     @ ''\<newline>''
     @ ''* Combined response of multiple events\<newline>''
     @ ''E1 out gnd VALUE={''
     @ (case filter is_visible cs of
          [] \<Rightarrow> []
        | c # cs' \<Rightarrow> ''\<newline>+ '' @ event_expression (get_values c)
            @ concat (map (\<lambda>c. ''+\<newline>+ '' @ event_expression (get_values c)) cs'))
     @ ''\<newline>+ }\<newline>\<newline>.ENDS MULTI_PIEZO''"
proof (cases "filter is_visible cs")
  case Nil
  then show ?thesis
    by (simp add: generate_spice_model_def generate_loop_hidden [of cs])
next
  case (Cons c cs')
  have "set (c # cs') = {x \<in> set cs. is_visible x}"
    by (simp only: Cons [symmetric] set_filter)
  then have v: "is_visible c" "\<forall>c\<in>set cs'. is_visible c"
    by auto
  show ?thesis
    using v by (simp add: generate_spice_model_def generate_loop_hidden [of cs] Cons
        generate_loop_later)
qed

lemma between_braces_single:
  assumes "is_visible c" "CHR ''{'' \<notin> set now"
  shows "between_braces (generate_spice_model now [c])
           = ''\<newline>+ '' @ event_expression (get_values c) @ ''\<newline>+ ''"
proof -
  have d: "dropWhile (\<lambda>c. c \<noteq> CHR ''{'') (now @ rest) = dropWhile (\<lambda>c. c \<noteq> CHR ''{'') rest" for rest
    using assms(2) by (simp add: dropWhile_append)
  show ?thesis
    using assms(1)
    by (simp add: generate_spice_model_text between_braces_def d event_expression_def Let_def
        takeWhile_format_f)
qed

lemma tokens_event_block:
  "tokenize Start (''\<newline>+ '' @ event_expression v @ ''\<newline>+ '') = tokenize Start (event_expression v)"
  by (simp add: event_expression_def Let_def tokenize_format_f lex_eval)

lemma expression_value_single:
  assumes "is_visible c" "CHR ''{'' \<notin> set now"
  shows "expression_value (between_braces (generate_spice_model now [c])) t
           = expression_value (event_expression (get_values c)) t"
  by (simp only: between_braces_single [OF assms] expression_value_def tokens_event_block)

subsection \<open>The waveform model (C2)\<close>

text \<open>
  C2, as stated, would make the optimizer's model function the scaled sum. At
  \<open>global_scale = 2\<close> it is not: \<open>dual_damped_sine\<close> has no scale argument, and
  returns 1 where the specification's evaluator returns 2.
\<close>

theorem C2_residual_not_scaled:
  "dual_damped_sine (1/4) 1 0 1 0 0 0 1 0 \<noteq> spec_evaluate [(1, 0, 1, 0), (0, 0, 1, 0)] 2 (1/4)"
  by (simp add: dual_damped_sine_def spec_evaluate_def)

text \<open>
  C2, amended: the preview is the specification's evaluator at the parameters'
  \<open>scale\<close>: when a window and its times are loaded, the red line of
  \<open>update_plot\<close> is that evaluator on the two components at every time, and the two
  dotted lines are the evaluator on each component alone (without a window nothing is drawn,
  without times the call raises). The function that \<open>perform_auto_fit\<close> hands to
  the optimizer is \<open>dual_damped_sine\<close> on the eight fitted parameters, and is the
  same sum without the scale, that is the evaluator at scale 1.
\<close>

theorem C2_model_definition:
  "update_plot self =
     (case data self of
        None \<Rightarrow> Inr None
      | Some ys \<Rightarrow>
          (case time self of
             None \<Rightarrow> Inl (TypeError ''unsupported operand type(s) for *: float and NoneType'')
           | Some ts \<Rightarrow>
               Inr (Some \<lparr>line_raw = (ts, ys),
                          line_fit = (ts, map (spec_evaluate (components_of (params self))
                                                 (scale (params self))) ts),
                          line_c1 = (ts, map (spec_evaluate [components_of (params self) ! 0]
                                                (scale (params self))) ts),
                          line_c2 = (ts, map (spec_evaluate [components_of (params self) ! 1]
                                                (scale (params self))) ts)\<rparr>)))
   \<and> total_signal p t = spec_evaluate (components_of p) (scale p) t
   \<and> perform_auto_fit curve_fit self = perform_auto_fit (\<lambda>f. curve_fit model_fn) self
   \<and> model_fn t [a1, d1, f1, p1, a2, d2, f2, p2] = dual_damped_sine t a1 d1 f1 p1 a2 d2 f2 p2
   \<and> dual_damped_sine t a1 d1 f1 p1 a2 d2 f2 p2
       = spec_evaluate [(a1, d1, f1, p1), (a2, d2, f2, p2)] 1 t"
  by (simp add: total_signal_def spec_evaluate_def components_of_def dual_damped_sine_def
      update_plot_def perform_auto_fit_def model_fn_def Let_def algebra_simps
      split: option.splits)

subsection \<open>Scale distribution (C5)\<close>

text \<open>
  C5: when a window is loaded, the text that \<open>export_spice\<close> writes is the header,
  the line \<open>E1 out gnd VALUE={\<close>, the first component, a line with a plus sign, the
  second component and the closing lines, and each component starts with
  \<open>amplitude * scale\<close> printed with five decimals; the scale is printed nowhere else,
  the text being the one of the parameters whose amplitudes already carry the scale and
  whose scale is 1. With \<open>scale = 2.0\<close> and \<open>amp1 = 1.5\<close> the first component starts
  with \<open>3.00000\<close>: the whole text is given for the default values of the other
  parameters.
\<close>

theorem C5_scale_distribution:

  "export_spice self =
     map_option (\<lambda>ys.
       ''\<newline>.SUBCKT CUSTOM_PIEZO out gnd\<newline>\<newline>''
       @ ''* Generated Automated Model\<newline>''
       @ ''* Dual-Component Damped Sine Approximation\<newline>''
       @ ''* Component 1: F='' @ format_f 1 (freq1 (params self)) @ ''Hz, Decay=''
       @ format_f 1 (decay1 (params self)) @ ''\<newline>''
       @ ''* Component 2: F='' @ format_f 1 (freq2 (params self)) @ ''Hz, Decay=''
       @ format_f 1 (decay2 (params self)) @ ''\<newline>\<newline>''
       @ ''E1 out gnd VALUE={\<newline>''
       @ ''+ '' @ format_f 5 (amp1 (params self) * scale (params self))
       @ '' * exp(-'' @ format_f 5 (decay1 (params self))
       @ '' * time) * sin(6.283185 * '' @ format_f 5 (freq1 (params self))
       @ '' * time + '' @ format_f 5 (phase1 (params self)) @ '') \<newline>''
       @ ''+ + \<newline>''
       @ ''+ '' @ format_f 5 (amp2 (params self) * scale (params self))
       @ '' * exp(-'' @ format_f 5 (decay2 (params self))
       @ '' * time) * sin(6.283185 * '' @ format_f 5 (freq2 (params self))
       @ '' * time + '' @ format_f 5 (phase2 (params self)) @ '')\<newline>''
       @ ''+ }\<newline>\<newline>.ENDS CUSTOM_PIEZO\<newline>'') (data self)
   \<and> export_spice self
       = export_spice (self\<lparr>params := (params self)\<lparr>amp1 := amp1 (params self) * scale (params self),
                                                    amp2 := amp2 (params self) * scale (params self),
                                                    scale := 1\<rparr>\<rparr>)
   \<and> export_spice (fitter8\<lparr>params := init_params\<lparr>amp1 := 1.5, scale := 2.0\<rparr>\<rparr>)
       = Some (''\<newline>.SUBCKT CUSTOM_PIEZO out gnd\<newline>\<newline>''
          @ ''* Generated Automated Model\<newline>''
          @ ''* Dual-Component Damped Sine Approximation\<newline>''
          @ ''* Component 1: F=100.0Hz, Decay=10.0\<newline>''
          @ ''* Component 2: F=400.0Hz, Decay=50.0\<newline>\<newline>''
          @ ''E1 out gnd VALUE={\<newline>''
          @ ''+ 3.00000 * exp(-10.00000 * time) * sin(6.283185 * 100.00000 * time + 0.00000) \<newline>''
          @ ''+ + \<newline>''
          @ ''+ 1.00000 * exp(-50.00000 * time) * sin(6.283185 * 400.00000 * time + 0.00000)\<newline>''
          @ ''+ }\<newline>\<newline>.ENDS CUSTOM_PIEZO\<newline>'')
   \<and> format_f 5 (1.5 * 2.0) = ''3.00000''"
  using format_values
  by (simp add: export_spice_def spice_content_def comp1_def comp2_def comp_string_def
      model_name_def fitter8_def init_params_def split: option.splits)

subsection \<open>The two gates of the delayed-event model (C10)\<close>




subsection \<open>The delayed-event term (C8)\<close>

text \<open>
  C8, as stated, would make the written expression compute the term on the amplitude, decay
  rate, delay and frequencies themselves. It computes it on what it prints: an amplitude of
  0.04 is written \<open>0.0\<close>, and the written expression is 0 at a time where the term is
  not.
\<close>

theorem C8_literals_rounded:
  "expression_value (event_expression event_faint) (5 / 16) = Some 0
   \<and> event_term (amplitude event_faint) (damping event_faint * (2 * pi * frequency event_faint))
        (delay event_faint / 1000) (2 * pi * frequency event_faint)
        (sqrt (1 - (damping event_faint)\<^sup>2)) (5 / 16) \<noteq> 0"
proof -
  have a: "fixed_value 1 (amplitude event_faint) = 0"
    by (simp add: event_faint_def fixed_eval)
  have 1: "expression_value (event_expression event_faint) (5 / 16) = Some 0"
    by (simp only: expression_value_event_term a) (simp add: event_term_def)
  have 2: "event_term (amplitude event_faint) (damping event_faint * (2 * pi * frequency event_faint))
        (delay event_faint / 1000) (2 * pi * frequency event_faint)
        (sqrt (1 - (damping event_faint)\<^sup>2)) (5 / 16) \<noteq> 0"
    by (simp add: event_faint_def event_term_def sqrt_faint)
  from 1 2 show ?thesis by simp
qed

text \<open>
  C8, amended: for a damping ratio in (0,1), the evaluator computes the term
  \<open>A * exp(-\<zeta>\<omega> (t - delay)) * sin(\<omega> sqrt(1 - \<zeta>\<^sup>2) (t - delay))\<close> with \<open>\<omega> = 2\<pi>f\<close>
  under the strict indicator, and gives 0 at and before the delay. The written expression
  has the value of the same term on the numbers it prints: the amplitude rounded to one
  decimal, \<open>\<zeta>\<omega>\<close>, \<open>\<omega>\<close> and \<open>sqrt(1 - \<zeta>\<^sup>2)\<close> to eight and the delay in seconds to
  six; it is 0 at and before the written delay. The model text of a single visible event
  holds this expression between its braces.
\<close>

theorem C8_delayed_event_term:
  assumes "0 < damping v" and "damping v < 1"
  shows "calculate_signal_at v t
           = event_term (amplitude v) (damping v * (2 * pi * frequency v)) (delay v / 1000)
               (2 * pi * frequency v) (sqrt (1 - (damping v)\<^sup>2)) t
         \<and> (t \<le> delay v / 1000 \<longrightarrow> calculate_signal_at v t = 0)
         \<and> expression_value (event_expression v) t
             = Some (event_term (fixed_value 1 (amplitude v))
                       (fixed_value 8 (damping v * (2 * pi * frequency v)))
                       (fixed_value 6 (delay v / 1000))
                       (fixed_value 8 (2 * pi * frequency v))
                       (fixed_value 8 (sqrt (1 - (damping v)\<^sup>2))) t)
         \<and> (t \<le> fixed_value 6 (delay v / 1000)
               \<longrightarrow> expression_value (event_expression v) t = Some 0)
         \<and> (is_visible c \<and> get_values c = v \<and> CHR ''{'' \<notin> set now
               \<longrightarrow> expression_value (between_braces (generate_spice_model now [c])) t
                     = expression_value (event_expression v) t)"
  using expression_value_single [of c now t]
  by (simp add: calculate_signal_at_term expression_value_event_term event_term_gate)

theorem C8_delayed_event_witness:
  "0 < damping event_late \<and> damping event_late < 1
   \<and> calculate_signal_at event_late (1 / 4) = 0
   \<and> expression_value (event_expression event_late) (1 / 4) = Some 0
   \<and> expression_value (between_braces (generate_spice_model ''2024-01-01 00:00:00''
          [\<lparr>is_visible = True, get_values = event_late\<rparr>])) (1 / 4) = Some 0"
proof -
  have d: "fixed_value 6 (delay event_late / 1000) = 1 / 4" "delay event_late / 1000 = 1 / 4"
    "fixed_value 6 (1 / 4) = 1 / 4"
    by (simp_all add: event_late_def fixed_eval)
  have z: "0 < damping event_late" "damping event_late < 1"
    by (simp_all add: event_late_def)
  from C8_delayed_event_term [OF z, of "1 / 4" "\<lparr>is_visible = True, get_values = event_late\<rparr>"
      "''2024-01-01 00:00:00''"] z
  show ?thesis by (simp add: d event_term_def)
qed

subsection \<open>The round trip (C1)\<close>

text \<open>
  C1, as stated, would keep the re-parsed expression within \<open>1e-6\<close> of the evaluator for
  every parameter set. A first amplitude of 0.000004 is written \<open>0.00000\<close>: at
  \<open>t = 1/4\<close>, with frequency 1 and no decay, the evaluator gives 0.000004 and the
  written expression 0.
\<close>

theorem C1_round_trip_fails:
  "expression_value (between_braces (spice_content params_faint)) (1 / 4) = Some 0
   \<and> total_signal params_faint (1 / 4) = 4 / 10 ^ 6
   \<and> \<not> \<bar>total_signal params_faint (1 / 4) - 0\<bar> \<le> 1 / 10 ^ 6"
proof -
  have a: "fixed_value 5 (amp1 params_faint * scale params_faint) = 0"
    "fixed_value 5 (amp2 params_faint * scale params_faint) = 0"
    by (simp_all add: params_faint_def fixed_eval)
  have 1: "expression_value (between_braces (spice_content params_faint)) (1 / 4) = Some 0"
    by (simp only: expression_value_spice_content a) simp
  have 2: "total_signal params_faint (1 / 4) = 4 / 10 ^ 6"
    by (simp add: total_signal_def params_faint_def)
  from 1 2 show ?thesis by simp
qed

text \<open>
  C1, amended: for every parameter set and time, the expression between the braces of the
  exported text, read back, has the value of the evaluator's formula on the printed
  numbers: each \<open>amplitude * scale\<close>, decay, frequency and phase rounded to five
  decimals, and 6.283185 for \<open>2\<pi>\<close>. The evaluator itself, \<open>dual_damped_sine\<close> times
  the scale, is the formula on the numbers themselves; a printed number is within half a
  unit of the fifth decimal of its number.
\<close>

theorem C1_round_trip_rounded:
  "expression_value (between_braces (spice_content p)) t
     = Some (fixed_value 5 (amp1 p * scale p) * exp (- fixed_value 5 (decay1 p) * t)
               * sin (6.283185 * fixed_value 5 (freq1 p) * t + fixed_value 5 (phase1 p))
             + fixed_value 5 (amp2 p * scale p) * exp (- fixed_value 5 (decay2 p) * t)
               * sin (6.283185 * fixed_value 5 (freq2 p) * t + fixed_value 5 (phase2 p)))
   \<and> map_option (\<lambda>text. expression_value (between_braces text) t) (export_spice self)
       = map_option (\<lambda>ys. expression_value (between_braces (spice_content (params self))) t)
           (data self)
   \<and> total_signal p t
       = dual_damped_sine t (amp1 p) (decay1 p) (freq1 p) (phase1 p)
           (amp2 p) (decay2 p) (freq2 p) (phase2 p) * scale p
   \<and> total_signal p t
       = (amp1 p * scale p) * exp (- decay1 p * t) * sin (2 * pi * freq1 p * t + phase1 p)
         + (amp2 p * scale p) * exp (- decay2 p * t) * sin (2 * pi * freq2 p * t + phase2 p)
   \<and> \<bar>fixed_value 5 x - x\<bar> \<le> 1 / (2 * 10 ^ 5)"
proof -
  have 1: "map_option (\<lambda>text. expression_value (between_braces text) t) (export_spice self)
       = map_option (\<lambda>ys. expression_value (between_braces (spice_content (params self))) t)
           (data self)"
    by (simp add: export_spice_def split: option.splits)
  have 2: "total_signal p t
       = dual_damped_sine t (amp1 p) (decay1 p) (freq1 p) (phase1 p)
           (amp2 p) (decay2 p) (freq2 p) (phase2 p) * scale p"
    by (simp add: total_signal_def dual_damped_sine_def Let_def)
  have 3: "total_signal p t
       = (amp1 p * scale p) * exp (- decay1 p * t) * sin (2 * pi * freq1 p * t + phase1 p)
         + (amp2 p * scale p) * exp (- decay2 p * t) * sin (2 * pi * freq2 p * t + phase2 p)"
    by (simp add: total_signal_def Let_def algebra_simps)
  from expression_value_spice_content [of p t] 1 2 3 fixed_value_error [of 5 x]
  show ?thesis by (simp only: simp_thms)
qed

subsection \<open>Fallback policy (C3)\<close>

text \<open>
  C3, as stated, would leave amplitude, decay and phase at the seed values of the initial
  guess (0.7 and 0.3 of the peak sample, 20 and 50 per second, phase 0) when the optimizer
  fails. On the eight-sample window with an optimizer that raises, a fresh fitter keeps
  \<open>decay1 = 10\<close> and \<open>amp1 = 1\<close>, the defaults of \<open>__init__\<close>, while the
  guess holds 20 and 0.7.
\<close>

theorem C3_fields_not_seeded:
  "\<exists>self' out. perform_auto_fit curve_fit_failing fitter8 = Inr (self', out)
     \<and> decay1 (params self') = 10 \<and> amp1 (params self') = 1
     \<and> initial_guess [0, 1000, 2000, 3000] [2] win8 ! 1 = 20
     \<and> initial_guess [0, 1000, 2000, 3000] [2] win8 ! 0 = 0.7"
  using fit_failing_win8 [of init_params]
  by (simp add: fit_failed_def fitter8_def init_params_def guess_win8)

text \<open>
  C3, amended: once the window is loaded and its spectrum analysed, whenever the
  refinement fails, for any reason, that is whatever exception \<open>e\<close> the call of
  \<open>curve_fit\<close> raises, \<open>perform_auto_fit\<close> raises nothing. It returns the fitter
  whose \<open>freq1\<close> and \<open>freq2\<close> are the frequencies of the initial guess and whose
  amplitudes, decays, phases and scale are the values held before the call, and it has
  printed \<open>Fit failed, using guesses: \<close> followed by the message of \<open>e\<close> as its
  last line, not \<open>Fit successful.\<close> (the repository has no \<open>converged\<close> flag).
\<close>

theorem C3_fallback_keeps_fields:
  assumes "data self = Some ys"
    and "analyze_spectrum (sample_rate self) ys = Inr (mag, freqs, spi)"
    and "curve_fit model_fn (time self) ys (initial_guess freqs spi ys)
           (lower_bounds, upper_bounds) 20000 = Inl e"
  shows "perform_auto_fit curve_fit self
           = Inr (self\<lparr>params := (params self)\<lparr>freq1 := initial_guess freqs spi ys ! 2,
                                                 freq2 := initial_guess freqs spi ys ! 6\<rparr>\<rparr>,
                  [''Analyzing signal spectrum...'', ''Running Least Squares Optimization...'',
                   ''Fit failed, using guesses: '' @ str_of_error e])
         \<and> \<not> converged [''Analyzing signal spectrum...'', ''Running Least Squares Optimization...'',
                          ''Fit failed, using guesses: '' @ str_of_error e]
         \<and> initial_guess freqs spi ys ! 2
               = (case spi of [] \<Rightarrow> 100 | i # js \<Rightarrow> freqs ! i)
         \<and> initial_guess freqs spi ys ! 6
               = (case spi of [] \<Rightarrow> 2 * 100 | [i] \<Rightarrow> 2 * freqs ! i | i # j # js \<Rightarrow> freqs ! j)"
  using assms
  by (simp add: perform_auto_fit_def fit_failed_def converged_def initial_guess_def Let_def
      split: list.splits)

theorem C3_fallback_witness:
  "perform_auto_fit curve_fit_failing (fitter8\<lparr>params := init_params\<lparr>decay1 := 33\<rparr>\<rparr>)
     = Inr (fitter8\<lparr>params := init_params\<lparr>decay1 := 33, freq1 := 2000, freq2 := 4000\<rparr>\<rparr>,
            [''Analyzing signal spectrum...'', ''Running Least Squares Optimization...'',
             ''Fit failed, using guesses: Optimal parameters not found: The maximum number of function evaluations is exceeded.''])"
  using C3_fallback_keeps_fields
      [of "fitter8\<lparr>params := init_params\<lparr>decay1 := 33\<rparr>\<rparr>" win8 "[0, 0, 4, 0]"
          "[0, 1000, 2000, 3000]" "[2]" curve_fit_failing
      "RuntimeError ''Optimal parameters not found: The maximum number of function evaluations is exceeded.''"]
    analyze_win8 guess_win8
  by (simp add: fitter8_def curve_fit_failing_def)

subsection \<open>Bounds enforcement (C4)\<close>

text \<open>
  C4: for every window, with an optimizer that keeps its documented contract (a result has
  as many parameters as the guess, each within the bounds it was given), a run that ends
  with \<open>Fit successful.\<close> leaves both decay rates in [0, 1000], both frequencies in
  [1, 20000] and both phases in [-\<pi>, \<pi>]; the bounds given for the two amplitudes are
  \<open>-inf\<close> and \<open>inf\<close>.
\<close>

theorem C4_bounds_enforced:
  assumes rb: "respects_bounds curve_fit"
    and run: "perform_auto_fit curve_fit self = Inr (self', out)"
    and conv: "converged out"
  shows "0 \<le> decay1 (params self') \<and> decay1 (params self') \<le> 1000
       \<and> 1 \<le> freq1 (params self') \<and> freq1 (params self') \<le> 20000
       \<and> - pi \<le> phase1 (params self') \<and> phase1 (params self') \<le> pi
       \<and> 0 \<le> decay2 (params self') \<and> decay2 (params self') \<le> 1000
       \<and> 1 \<le> freq2 (params self') \<and> freq2 (params self') \<le> 20000
       \<and> - pi \<le> phase2 (params self') \<and> phase2 (params self') \<le> pi
       \<and> lower_bounds ! 0 = NegInf \<and> upper_bounds ! 0 = PosInf
       \<and> lower_bounds ! 4 = NegInf \<and> upper_bounds ! 4 = PosInf"
proof -
  from run obtain ys where ys: "data self = Some ys"
    by (auto simp: perform_auto_fit_def split: option.splits)
  from run ys obtain mag freqs spi where an: "analyze_spectrum (sample_rate self) ys = Inr (mag, freqs, spi)"
    by (auto simp: perform_auto_fit_def split: sum.splits)
  let ?p0 = "initial_guess freqs spi ys"
  from run ys an conv obtain popt where
    popt: "curve_fit model_fn (time self) ys ?p0 (lower_bounds, upper_bounds) 20000 = Inr popt"
    by (cases "curve_fit model_fn (time self) ys ?p0 (lower_bounds, upper_bounds) 20000")
       (auto simp: perform_auto_fit_def Let_def fit_failed_def converged_def)
  from rb popt have len: "length popt = length ?p0" and wb: "within_bounds lower_bounds upper_bounds popt"
    unfolding respects_bounds_def by blast+
  have "length ?p0 = 8" by (simp add: initial_guess_def Let_def)
  with len have l8: "length popt = 8" by simp
  then obtain a1 d1 f1 p1 a2 d2 f2 p2 where eq: "popt = [a1, d1, f1, p1, a2, d2, f2, p2]"
    using list8 by blast
  from run ys an popt have "self' = self\<lparr>params := (params self)\<lparr>amp1 := a1, decay1 := d1, freq1 := f1, phase1 := p1,
      amp2 := a2, decay2 := d2, freq2 := f2, phase2 := p2\<rparr>\<rparr>"
    by (simp add: perform_auto_fit_def Let_def eq)
  with within_bounds8 [OF wb [unfolded eq]] show ?thesis
    by (simp add: lower_bounds_def upper_bounds_def)
qed

theorem C4_bounds_witness:
  "respects_bounds curve_fit_feasible
   \<and> (\<exists>self' out. perform_auto_fit curve_fit_feasible fitter8 = Inr (self', out) \<and> converged out
        \<and> decay1 (params self') = 20 \<and> freq2 (params self') = 4000)"
  using C4_bounds_enforced [of curve_fit_feasible fitter8] respects_bounds_feasible fit_feasible_win8
  by (simp add: converged_def)

subsection \<open>Initial guess (C7)\<close>

text \<open>
  C7: the initial guess is, in order, 0.7 times the largest absolute sample, 20, the
  frequency of the first peak of the list (100 when the list is empty), 0, 0.3 times the
  largest absolute sample, 50, the frequency of the second peak of the list (twice the
  first frequency when there are fewer than two peaks), 0; and the list of peaks that
  the spectrum analysis hands over is in descending order of magnitude, so that its first
  and second peaks are the highest and the second highest.
\<close>

theorem C7_initial_guess:
  "initial_guess freqs spi ys =
     [Max (set (map abs ys)) * 0.7, 20,
      (case spi of [] \<Rightarrow> 100 | i # js \<Rightarrow> freqs ! i), 0,
      Max (set (map abs ys)) * 0.3, 50,
      (case spi of [] \<Rightarrow> 2 * 100 | [i] \<Rightarrow> 2 * freqs ! i | i # j # js \<Rightarrow> freqs ! j), 0]
   \<and> (\<forall>sr mag. analyze_spectrum sr ys = Inr (mag, freqs, spi)
         \<longrightarrow> sorted (rev (map (\<lambda>p. mag ! p) spi)))"
  using analyze_sorted [of _ ys _ freqs spi]
  by (simp add: initial_guess_def Let_def split: list.splits)

theorem C7_initial_guess_witness:
  "analyze_spectrum 8000 win8 = Inr ([0, 0, 4, 0], [0, 1000, 2000, 3000], [2])
   \<and> initial_guess [0, 1000, 2000, 3000] [2] win8 = [0.7, 20, 2000, 0, 0.3, 50, 4000, 0]
   \<and> sorted (rev (map (\<lambda>p. [0, 0, 4, 0::real] ! p) [2]))"
  using C7_initial_guess [of "[0, 1000, 2000, 3000]" "[2]" win8] analyze_win8
  by (simp add: win8_def)

subsection \<open>Frame condition on the scale (C9)\<close>

text \<open>
  C9: the scale of a new fitter is 1.0, and every run of \<open>perform_auto_fit\<close> that
  returns, on the successful path or on the fallback path, with any optimizer and any
  window, leaves the scale as it was.
\<close>

theorem C9_scale_frame:
  "scale (params PiezoAutoFitter_init) = 1
   \<and> (\<forall>curve_fit self self' out.
         perform_auto_fit curve_fit self = Inr (self', out)
           \<longrightarrow> scale (params self') = scale (params self))"
  by (auto simp: PiezoAutoFitter_init_def init_params_def perform_auto_fit_def fit_failed_def
      Let_def split: option.splits sum.splits prod.splits)

theorem C9_scale_frame_witness:
  "\<exists>self' out. perform_auto_fit curve_fit_feasible fitter8 = Inr (self', out)
     \<and> amp1 (params self') \<noteq> amp1 (params fitter8)
     \<and> scale (params self') = 1"
  using C9_scale_frame fit_feasible_win8
  by (simp add: fitter8_def init_params_def)

end
